theory Spec2Isabelle
  imports Main "HOL-Library.AList"
begin

section \<open>The datalake worker: data model\<close>

text \<open>
  The development embeds \<^verbatim>\<open>workers/datalake/src/blob.ts\<close> and the worker entry point
  (router, \<^verbatim>\<open>getBlob\<close>, \<^verbatim>\<open>putBlob\<close>). Byte strings are lists of characters (a
  \<^typ>\<open>char\<close> is one byte), identifiers (UUIDs) are strings. Every handler is a function
  from the state of the outside world (metadata tables, bucket objects, edge cache) to a
  result and the new state; an exception is the \<open>Inl\<close> branch of the result.
\<close>

type_synonym bytes = string
type_synonym UUID = string
type_synonym location = string

datatype error =
    TypeError               \<comment> \<open>property access on an undefined \<^verbatim>\<open>env\<close>\<close>
  | BlobNotFound            \<comment> \<open>\<^verbatim>\<open>Error('blob not found')\<close>\<close>
  | BucketError             \<comment> \<open>a rejected bucket operation\<close>
  | DbError                 \<comment> \<open>a rejected metadata-store operation\<close>
  | VideoError              \<comment> \<open>a rejected call to the media collaborator\<close>
  | URIError                \<comment> \<open>\<^verbatim>\<open>decodeURIComponent\<close> on a malformed escape\<close>
  | FailedToFetch nat       \<comment> \<open>\<^verbatim>\<open>Error(`Failed to fetch blob: ...`)\<close>, with the status\<close>

text \<open>
  The operations on outside collaborators that may reject. Which of them reject during
  one call of a handler is an input of the model (\<open>faults\<close>): nothing is assumed about
  it. An operation that rejects has no effect.
\<close>

datatype io =
    PgConnect
  | DbGetBlob string string
  | DbDeleteBlob string string
  | DbGetData UUID location
  | DbCreateData UUID location
  | DbCreateBlob string string
  | R2Get location UUID
  | R2Head location UUID
  | R2Put location UUID
  | R2Delete location UUID
  | CopyVideo string string
  | DeleteVideo string string
  | CachePut

type_synonym faults = "io \<Rightarrow> bool"

text \<open>\<^verbatim>\<open>R2HTTPMetadata\<close>, \<^verbatim>\<open>R2Range\<close> and \<^verbatim>\<open>R2Object\<close>, with the fields the code reads.
  An absent property (\<^verbatim>\<open>'length' in range\<close> false, \<^verbatim>\<open>undefined\<close>) is \<open>None\<close>.\<close>

record http_metadata =
  hm_contentType :: "string option"
  hm_cacheControl :: "string option"

record r2range =
  r_offset :: "nat option"
  r_length :: "nat option"
  r_suffix :: "nat option"

record r2object =
  o_size :: nat
  o_httpMetadata :: "http_metadata option"
  o_uploaded :: nat
  o_httpEtag :: string
  o_md5 :: "bytes option"
  o_range :: "r2range option"
  o_body :: bytes

text \<open>The rows of the two tables of the metadata store, and the joined row that
  \<^verbatim>\<open>db.getBlob\<close> returns (the code reads its \<^verbatim>\<open>deleted\<close> and \<^verbatim>\<open>filename\<close>).\<close>

record data_row =
  d_hash :: UUID
  d_location :: location
  d_filename :: UUID
  d_type :: string
  d_size :: nat

record blob_row =
  b_workspace :: string
  b_name :: string
  b_hash :: UUID
  b_location :: location
  b_deleted :: bool

record blob_data =
  bd_hash :: UUID
  bd_location :: location
  bd_deleted :: bool
  bd_filename :: UUID

record BlobMetadata =
  md_lastModified :: nat
  md_type :: string
  md_size :: nat
  md_name :: string

datatype upload_outcome = Metadata BlobMetadata | Error error

datatype body =
    NoBody
  | Bytes bytes
  | ErrorBody "string option"
  | Json "(string \<times> upload_outcome) list"
  | Html

record response =
  status :: nat
  headers :: "(string \<times> string) list"
  body :: body

text \<open>A request to a blob route after \<^verbatim>\<open>withBlob\<close>: workspace, name, and the Range header
  as the bucket reads it (\<open>None\<close> when the request has no Range header).\<close>

record BlobRequest =
  rq_workspace :: string
  rq_name :: string
  rq_range :: "r2range option"

text \<open>The state of the world outside the worker: the two tables, the objects of every
  bucket (keyed by the bucket's location and the object's key), the edge cache, the
  videos handed to the media collaborator, the number of random UUIDs drawn so far, and
  the clock of the bucket.\<close>

record world =
  data_tbl :: "data_row list"
  blob_tbl :: "blob_row list"
  objects :: "((location \<times> UUID) \<times> r2object) list"
  cache :: "(BlobRequest \<times> response) list"
  media :: "(string \<times> string) list"
  drawn :: nat
  now :: nat

text \<open>What the code imports and this repository's sources do not show: the constants of
  \<^verbatim>\<open>const.ts\<close>, the digest, \<^verbatim>\<open>toUUID\<close> of \<^verbatim>\<open>encodings.ts\<close>, the random generator,
  date formatting, and the checksum and entity tag a bucket records for a body. They are
  parameters of every function below.\<close>

record platform =
  hashLimit :: nat
  cacheControl :: string
  sha256 :: "bytes \<Rightarrow> bytes"
  toUUID :: "bytes \<Rightarrow> UUID"
  randomUUID :: "nat \<Rightarrow> UUID"
  toUTCString :: "nat \<Rightarrow> string"
  r2_md5 :: "bytes \<Rightarrow> bytes option"
  r2_etag :: "bytes \<Rightarrow> string"
  decodeURIComponent :: "string \<Rightarrow> string option"

text \<open>\<^verbatim>\<open>Env\<close>: the bindings of the worker. All the code does with it is select the storage
  of a workspace.\<close>

record Env =
  selectLocation :: "string \<Rightarrow> location"

section \<open>Collaborators\<close>

subsection \<open>Number formatting\<close>

definition digit_char :: "nat \<Rightarrow> char" where
  "digit_char n = ''0123456789'' ! (n mod 10)"

function show_nat :: "nat \<Rightarrow> string" where
  "show_nat n = (if n < 10 then [digit_char n] else show_nat (n div 10) @ [digit_char n])"
  by pat_completeness auto
termination
  by (relation "measure id") auto

declare show_nat.simps [simp del]

definition show_int :: "int \<Rightarrow> string" where
  "show_int i = (if i < 0 then CHR ''-'' # show_nat (nat (- i)) else show_nat (nat i))"

subsection \<open>Storage selection and the metadata store\<close>

text \<open>Modelled from the spec: \<^verbatim>\<open>storage.ts\<close> (\<^verbatim>\<open>selectStorage\<close>) is missing. The spec has
  \<open>select(tenant) -> {location, bucket}\<close>, a total function of the tenant and the static
  configuration; the bucket is the one of the location. The configuration is read from
  \<^verbatim>\<open>env\<close>, so the call raises when \<^verbatim>\<open>env\<close> is undefined.\<close>

definition selectStorage :: "Env option \<Rightarrow> string \<Rightarrow> error + location" where
  "selectStorage env workspace =
     (case env of None \<Rightarrow> Inl TypeError | Some e \<Rightarrow> Inr (selectLocation e workspace))"

text \<open>Modelled from the spec: \<^verbatim>\<open>db.ts\<close> is missing. \<^verbatim>\<open>withPostgres\<close> opens a connection
  from \<^verbatim>\<open>env\<close> and runs the callback on it.\<close>

definition withPostgres ::
  "Env option \<Rightarrow> faults \<Rightarrow> (world \<Rightarrow> (error + 'a) \<times> world) \<Rightarrow> world \<Rightarrow> (error + 'a) \<times> world" where
  "withPostgres env flt fn w =
     (case env of
        None \<Rightarrow> (Inl TypeError, w)
      | Some e \<Rightarrow> if flt PgConnect then (Inl DbError, w) else fn w)"

text \<open>Modelled from the spec: \<^verbatim>\<open>db.getData\<close> looks the Data row of a (hash, location) up.\<close>

definition getData :: "data_row list \<Rightarrow> UUID \<Rightarrow> location \<Rightarrow> data_row option" where
  "getData tbl h loc = find (\<lambda>d. d_hash d = h \<and> d_location d = loc) tbl"

text \<open>Modelled from the spec: \<^verbatim>\<open>db.createData\<close> is an insert-if-absent: a second attempt
  to create the same key is a no-op, not an error.\<close>

definition createData :: "data_row list \<Rightarrow> data_row \<Rightarrow> data_row list" where
  "createData tbl row =
     (case getData tbl (d_hash row) (d_location row) of
        Some d \<Rightarrow> tbl
      | None \<Rightarrow> tbl @ [row])"

definition blob_key :: "string \<Rightarrow> string \<Rightarrow> blob_row \<Rightarrow> bool" where
  "blob_key workspace nm b \<longleftrightarrow> b_workspace b = workspace \<and> b_name b = nm"

text \<open>Modelled from the spec: \<^verbatim>\<open>db.createBlob\<close> is an upsert: creating a Blob row for a
  name that already exists replaces its (hash, location, deleted=false) pointer.\<close>

definition createBlob :: "blob_row list \<Rightarrow> string \<Rightarrow> string \<Rightarrow> UUID \<Rightarrow> location \<Rightarrow> blob_row list" where
  "createBlob tbl workspace nm h loc =
     (if list_ex (blob_key workspace nm) tbl
      then map (\<lambda>b. if blob_key workspace nm b
                    then b\<lparr>b_hash := h, b_location := loc, b_deleted := False\<rparr> else b) tbl
      else tbl @ [\<lparr>b_workspace = workspace, b_name = nm, b_hash = h, b_location = loc,
                   b_deleted = False\<rparr>])"

text \<open>Modelled from the spec: \<^verbatim>\<open>db.deleteBlob\<close> marks the Blob soft-deleted; it does not
  remove the row and does not touch the Data table.\<close>

definition deleteBlob :: "blob_row list \<Rightarrow> string \<Rightarrow> string \<Rightarrow> blob_row list" where
  "deleteBlob tbl workspace nm =
     map (\<lambda>b. if blob_key workspace nm b then b\<lparr>b_deleted := True\<rparr> else b) tbl"

text \<open>Modelled from the spec: \<^verbatim>\<open>db.getBlob\<close> resolves a name to its content pointer and
  the physical key of the content (the Blob row joined with its Data row).\<close>

definition getBlob_row :: "world \<Rightarrow> string \<Rightarrow> string \<Rightarrow> blob_data option" where
  "getBlob_row w workspace nm =
     (case find (blob_key workspace nm) (blob_tbl w) of
        None \<Rightarrow> None
      | Some b \<Rightarrow>
          (case getData (data_tbl w) (b_hash b) (b_location b) of
             None \<Rightarrow> None
           | Some d \<Rightarrow> Some \<lparr>bd_hash = b_hash b, bd_location = b_location b,
                             bd_deleted = b_deleted b, bd_filename = d_filename d\<rparr>))"

text \<open>The same operations as calls that may reject.\<close>

definition db_getBlob :: "faults \<Rightarrow> string \<Rightarrow> string \<Rightarrow> world \<Rightarrow> (error + blob_data option) \<times> world" where
  "db_getBlob flt workspace nm w =
     (if flt (DbGetBlob workspace nm) then (Inl DbError, w)
      else (Inr (getBlob_row w workspace nm), w))"

definition db_getData :: "faults \<Rightarrow> UUID \<Rightarrow> location \<Rightarrow> world \<Rightarrow> (error + data_row option) \<times> world" where
  "db_getData flt h loc w =
     (if flt (DbGetData h loc) then (Inl DbError, w)
      else (Inr (getData (data_tbl w) h loc), w))"

definition db_createBlob ::
  "faults \<Rightarrow> string \<Rightarrow> string \<Rightarrow> UUID \<Rightarrow> location \<Rightarrow> world \<Rightarrow> (error + unit) \<times> world" where
  "db_createBlob flt workspace nm h loc w =
     (if flt (DbCreateBlob workspace nm) then (Inl DbError, w)
      else (Inr (), w\<lparr>blob_tbl := createBlob (blob_tbl w) workspace nm h loc\<rparr>))"

definition db_deleteBlob :: "faults \<Rightarrow> string \<Rightarrow> string \<Rightarrow> world \<Rightarrow> (error + unit) \<times> world" where
  "db_deleteBlob flt workspace nm w =
     (if flt (DbDeleteBlob workspace nm) then (Inl DbError, w)
      else (Inr (), w\<lparr>blob_tbl := deleteBlob (blob_tbl w) workspace nm\<rparr>))"

text \<open>\<^verbatim>\<open>sql.begin((sql) => [db.createData(...), db.createBlob(...)])\<close>: the two statements
  commit together or not at all.\<close>

definition sql_begin ::
  "faults \<Rightarrow> data_row \<Rightarrow> string \<Rightarrow> string \<Rightarrow> world \<Rightarrow> (error + unit) \<times> world" where
  "sql_begin flt row workspace nm w =
     (if flt (DbCreateData (d_hash row) (d_location row)) \<or> flt (DbCreateBlob workspace nm)
      then (Inl DbError, w)
      else (Inr (), w\<lparr>data_tbl := createData (data_tbl w) row,
                      blob_tbl := createBlob (blob_tbl w) workspace nm (d_hash row) (d_location row)\<rparr>))"

text \<open>\<^verbatim>\<open>Promise.all([p, q])\<close>: both operations are started and both take effect where they
  succeed; the result is an error when either rejects (the error of the first of the
  array, when both do).\<close>

definition promise_all ::
  "(world \<Rightarrow> (error + 'a) \<times> world) \<Rightarrow> (world \<Rightarrow> (error + 'b) \<times> world) \<Rightarrow>
   world \<Rightarrow> (error + ('a \<times> 'b)) \<times> world" where
  "promise_all p q w =
     (case p w of (r1, w1) \<Rightarrow>
        (case q w1 of (r2, w2) \<Rightarrow>
           ((case r1 of
               Inl e \<Rightarrow> Inl e
             | Inr a \<Rightarrow> (case r2 of Inl e \<Rightarrow> Inl e | Inr b \<Rightarrow> Inr (a, b))), w2)))"

subsection \<open>The bucket, the edge cache and the media collaborator\<close>

text \<open>The bucket of the platform (R2). \<^verbatim>\<open>head\<close> returns the stored object or null.\<close>

definition bucket_head :: "faults \<Rightarrow> location \<Rightarrow> UUID \<Rightarrow> world \<Rightarrow> (error + r2object option) \<times> world" where
  "bucket_head flt loc k w =
     (if flt (R2Head loc k) then (Inl BucketError, w)
      else (Inr (map_of (objects w) (loc, k)), w))"

text \<open>The part of the object a range request selects, as offset and length; \<open>None\<close> when
  the range starts beyond the object.\<close>

definition resolve_range :: "r2range \<Rightarrow> nat \<Rightarrow> (nat \<times> nat) option" where
  "resolve_range r sz =
     (case r_suffix r of
        Some s \<Rightarrow> Some (sz - min s sz, min s sz)
      | None \<Rightarrow>
          (let off = (case r_offset r of Some x \<Rightarrow> x | None \<Rightarrow> 0)
           in if sz < off then None
              else Some (off, (case r_length r of Some l \<Rightarrow> min l (sz - off) | None \<Rightarrow> sz - off))))"

text \<open>\<^verbatim>\<open>get\<close> returns null for a missing key; with a range it returns the selected part of
  the body and reports the range as offset and length, and it rejects an unsatisfiable
  range. The reported \<^verbatim>\<open>size\<close> stays the size of the whole object.\<close>

definition bucket_get ::
  "faults \<Rightarrow> location \<Rightarrow> UUID \<Rightarrow> r2range option \<Rightarrow> world \<Rightarrow> (error + r2object option) \<times> world" where
  "bucket_get flt loc k rng w =
     (if flt (R2Get loc k) then (Inl BucketError, w)
      else (case map_of (objects w) (loc, k) of
              None \<Rightarrow> (Inr None, w)
            | Some obj \<Rightarrow>
                (case rng of
                   None \<Rightarrow> (Inr (Some obj), w)
                 | Some r \<Rightarrow>
                     (case resolve_range r (o_size obj) of
                        None \<Rightarrow> (Inl BucketError, w)
                      | Some (off, len) \<Rightarrow>
                          (Inr (Some (obj\<lparr>o_range := Some \<lparr>r_offset = Some off, r_length = Some len,
                                                             r_suffix = None\<rparr>,
                                           o_body := take len (drop off (o_body obj))\<rparr>)), w)))))"

text \<open>\<^verbatim>\<open>put\<close> stores the body under the key with the given metadata, replacing any object
  there.\<close>

definition bucket_put ::
  "platform \<Rightarrow> faults \<Rightarrow> location \<Rightarrow> UUID \<Rightarrow> bytes \<Rightarrow> http_metadata \<Rightarrow> world \<Rightarrow> (error + unit) \<times> world" where
  "bucket_put plat flt loc k stream hm w =
     (if flt (R2Put loc k) then (Inl BucketError, w)
      else (Inr (), w\<lparr>objects := AList.update (loc, k)
                        \<lparr>o_size = length stream, o_httpMetadata = Some hm, o_uploaded = now w,
                         o_httpEtag = r2_etag plat stream, o_md5 = r2_md5 plat stream,
                         o_range = None, o_body = stream\<rparr> (objects w)\<rparr>))"

text \<open>\<^verbatim>\<open>delete\<close> removes the key; deleting a missing key succeeds.\<close>

definition bucket_delete :: "faults \<Rightarrow> location \<Rightarrow> UUID \<Rightarrow> world \<Rightarrow> (error + unit) \<times> world" where
  "bucket_delete flt loc k w =
     (if flt (R2Delete loc k) then (Inl BucketError, w)
      else (Inr (), w\<lparr>objects := AList.delete (loc, k) (objects w)\<rparr>))"

text \<open>Modelled from the spec: \<^verbatim>\<open>measure.ts\<close> (\<^verbatim>\<open>LoggedCache\<close>) is missing. The edge cache
  holds responses keyed by the original request.\<close>

definition cache_match :: "world \<Rightarrow> BlobRequest \<Rightarrow> response option" where
  "cache_match w request = map_of (cache w) request"

text \<open>\<^verbatim>\<open>ctx.waitUntil(cache.put(request, response.clone()))\<close>: a failed insertion is not
  seen by the caller.\<close>

definition cache_put :: "faults \<Rightarrow> BlobRequest \<Rightarrow> response \<Rightarrow> world \<Rightarrow> world" where
  "cache_put flt request resp w =
     (if flt CachePut then w else w\<lparr>cache := AList.update request resp (cache w)\<rparr>)"

text \<open>Modelled from the spec: \<^verbatim>\<open>video.ts\<close> is missing. \<^verbatim>\<open>copyVideo\<close> copies the blob into
  the media-processing collaborator, \<^verbatim>\<open>deleteVideo\<close> deletes the derived media of a name.
  Each is a call to a remote service and may reject.\<close>

definition copyVideo :: "faults \<Rightarrow> string \<Rightarrow> string \<Rightarrow> string \<Rightarrow> world \<Rightarrow> (error + unit) \<times> world" where
  "copyVideo flt blobURL workspace nm w =
     (if flt (CopyVideo workspace nm) then (Inl VideoError, w)
      else (Inr (), w\<lparr>media := List.insert (workspace, nm) (media w)\<rparr>))"

definition deleteVideo :: "faults \<Rightarrow> string \<Rightarrow> string \<Rightarrow> world \<Rightarrow> (error + unit) \<times> world" where
  "deleteVideo flt workspace nm w =
     (if flt (DeleteVideo workspace nm) then (Inl VideoError, w)
      else (Inr (), w\<lparr>media := removeAll (workspace, nm) (media w)\<rparr>))"

text \<open>Modelled from the spec: \<^verbatim>\<open>hash.ts\<close> is missing. The digest of the stream, encoded as
  a UUID-shaped identifier derived from the digest bytes.\<close>

definition getSha256 :: "platform \<Rightarrow> bytes \<Rightarrow> UUID" where
  "getSha256 plat stream = toUUID plat (sha256 plat stream)"

text \<open>\<^verbatim>\<open>crypto.randomUUID()\<close>: the next value of the generator.\<close>

definition crypto_randomUUID :: "platform \<Rightarrow> world \<Rightarrow> UUID \<times> world" where
  "crypto_randomUUID plat w = (randomUUID plat (drawn w), w\<lparr>drawn := Suc (drawn w)\<rparr>)"

text \<open>\<^verbatim>\<open>error(status, message?)\<close> and \<^verbatim>\<open>json(value)\<close> of the router library.\<close>

definition error_response :: "nat \<Rightarrow> string option \<Rightarrow> response" where
  "error_response code msg = \<lparr>status = code, headers = [], body = ErrorBody msg\<rparr>"

definition json :: "(string \<times> upload_outcome) list \<Rightarrow> response" where
  "json v = \<lparr>status = 200,
            headers = [(''content-type'', ''application/json; charset=utf-8'')],
            body = Json v\<rparr>"

definition ok :: "response \<Rightarrow> bool" where
  "ok r \<longleftrightarrow> 200 \<le> status r \<and> status r \<le> 299"

section \<open>blob.ts\<close>

definition getBlobURL :: "string \<Rightarrow> string \<Rightarrow> string \<Rightarrow> string" where
  "getBlobURL origin workspace nm = origin @ ''/blob/'' @ workspace @ ''/'' @ nm"

definition getUniqueFilename :: "platform \<Rightarrow> world \<Rightarrow> UUID \<times> world" where
  "getUniqueFilename plat w = crypto_randomUUID plat w"

definition digestToUUID :: "platform \<Rightarrow> bytes \<Rightarrow> UUID" where
  "digestToUUID plat digest = toUUID plat digest"

definition rangeHeader :: "r2range \<Rightarrow> nat \<Rightarrow> string" where
  "rangeHeader rng sz =
     (let offset = r_offset rng;
          len = r_length rng;
          suffix = r_suffix rng;
          start = (case suffix of
                     Some s \<Rightarrow> int sz - int s
                   | None \<Rightarrow> (case offset of Some x \<Rightarrow> int x | None \<Rightarrow> 0));
          endpos = (case suffix of
                      Some s \<Rightarrow> int sz
                    | None \<Rightarrow> (case len of Some l \<Rightarrow> start + int l | None \<Rightarrow> int sz))
      in ''bytes '' @ show_int start @ ''-'' @ show_int (endpos - 1) @ ''/'' @ show_nat sz)"

definition r2MetadataHeaders :: "platform \<Rightarrow> r2object \<Rightarrow> (string \<times> string) list" where
  "r2MetadataHeaders plat head =
     (case o_httpMetadata head of
        Some hm \<Rightarrow>
          [(''Accept-Ranges'', ''bytes''),
           (''Content-Length'', show_nat (o_size head)),
           (''Content-Type'', (case hm_contentType hm of Some t \<Rightarrow> t | None \<Rightarrow> [])),
           (''Content-Security-Policy'', ''default-src 'none';''),
           (''Cache-Control'', (case hm_cacheControl hm of Some c \<Rightarrow> c | None \<Rightarrow> cacheControl plat)),
           (''Last-Modified'', toUTCString plat (o_uploaded head)),
           (''ETag'', o_httpEtag head)]
      | None \<Rightarrow>
          [(''Accept-Ranges'', ''bytes''),
           (''Content-Length'', show_nat (o_size head)),
           (''Content-Security-Policy'', ''default-src 'none';''),
           (''Cache-Control'', cacheControl plat),
           (''Last-Modified'', toUTCString plat (o_uploaded head)),
           (''ETag'', o_httpEtag head)])"

text \<open>Lines 64 to 72 of \<^verbatim>\<open>handleBlobGet\<close>: the response built from the object the bucket
  returned. \<open>rng\<close> is \<^verbatim>\<open>range\<close>, defined when the request has a Range header.\<close>

definition blobGetResponse :: "platform \<Rightarrow> r2range option \<Rightarrow> r2object \<Rightarrow> response" where
  "blobGetResponse plat rng object =
     (let headers0 = r2MetadataHeaders plat object;
          headers1 = (case rng of
                        None \<Rightarrow> headers0
                      | Some hdr \<Rightarrow>
                          (case o_range object of
                             None \<Rightarrow> headers0
                           | Some r \<Rightarrow> AList.update ''Content-Range''
                                        (rangeHeader r (o_size object)) headers0));
          len = (case o_range object of None \<Rightarrow> None | Some r \<Rightarrow> r_length r);
          st = (case len of
                  Some l \<Rightarrow> if l < o_size object then 206 else 200
                | None \<Rightarrow> 200)
      in \<lparr>status = st, headers = headers1, body = Bytes (o_body object)\<rparr>)"

definition handleBlobGet ::
  "platform \<Rightarrow> Env option \<Rightarrow> faults \<Rightarrow> BlobRequest \<Rightarrow> world \<Rightarrow> (error + response) \<times> world" where
  "handleBlobGet plat env flt request w =
     (case cache_match w request of
        Some cached \<Rightarrow> (Inr cached, w)
      | None \<Rightarrow>
          (case selectStorage env (rq_workspace request) of
             Inl e \<Rightarrow> (Inl e, w)
           | Inr bucket \<Rightarrow>
               (case withPostgres env flt (db_getBlob flt (rq_workspace request) (rq_name request)) w of
                  (Inl e, w1) \<Rightarrow> (Inl e, w1)
                | (Inr None, w1) \<Rightarrow> (Inr (error_response 404 None), w1)
                | (Inr (Some blob), w1) \<Rightarrow>
                    if bd_deleted blob then (Inr (error_response 404 None), w1)
                    else
                      (case bucket_get flt bucket (bd_filename blob) (rq_range request) w1 of
                         (Inl e, w2) \<Rightarrow> (Inl e, w2)
                       | (Inr None, w2) \<Rightarrow> (Inr (error_response 404 None), w2)
                       | (Inr (Some object), w2) \<Rightarrow>
                           (let resp = blobGetResponse plat (rq_range request) object
                            in if status resp = 200
                               then (Inr resp, cache_put flt request resp w2)
                               else (Inr resp, w2))))))"

definition handleBlobHead ::
  "platform \<Rightarrow> Env option \<Rightarrow> faults \<Rightarrow> BlobRequest \<Rightarrow> world \<Rightarrow> (error + response) \<times> world" where
  "handleBlobHead plat env flt request w =
     (case selectStorage env (rq_workspace request) of
        Inl e \<Rightarrow> (Inl e, w)
      | Inr bucket \<Rightarrow>
          (case withPostgres env flt (db_getBlob flt (rq_workspace request) (rq_name request)) w of
             (Inl e, w1) \<Rightarrow> (Inl e, w1)
           | (Inr None, w1) \<Rightarrow> (Inr (error_response 404 None), w1)
           | (Inr (Some blob), w1) \<Rightarrow>
               if bd_deleted blob then (Inr (error_response 404 None), w1)
               else
                 (case bucket_head flt bucket (bd_filename blob) w1 of
                    (Inl e, w2) \<Rightarrow> (Inl e, w2)
                  | (Inr None, w2) \<Rightarrow> (Inr (error_response 404 None), w2)
                  | (Inr (Some head), w2) \<Rightarrow>
                      (case o_httpMetadata head of
                         None \<Rightarrow> (Inr (error_response 404 None), w2)
                       | Some hm \<Rightarrow>
                           (Inr \<lparr>status = 200, headers = r2MetadataHeaders plat head,
                                 body = NoBody\<rparr>, w2)))))"

definition handleBlobDelete ::
  "Env option \<Rightarrow> faults \<Rightarrow> BlobRequest \<Rightarrow> world \<Rightarrow> (error + response) \<times> world" where
  "handleBlobDelete env flt request w =
     (case withPostgres env flt
             (promise_all (db_deleteBlob flt (rq_workspace request) (rq_name request))
                          (deleteVideo flt (rq_workspace request) (rq_name request))) w of
        (Inr done, w1) \<Rightarrow> (Inr \<lparr>status = 204, headers = [], body = NoBody\<rparr>, w1)
      | (Inl err, w1) \<Rightarrow> (Inr (error_response 500 None), w1))"

definition uploadLargeFile ::
  "platform \<Rightarrow> faults \<Rightarrow> location \<Rightarrow> bytes \<Rightarrow> UUID \<Rightarrow> http_metadata \<Rightarrow> world \<Rightarrow> (error + UUID) \<times> world" where
  "uploadLargeFile plat flt bucket stream filename hm w =
     (case bucket_put plat flt bucket filename stream hm w of
        (Inl e, w1) \<Rightarrow> (Inl e, w1)
      | (Inr u, w1) \<Rightarrow> (Inr (digestToUUID plat (sha256 plat stream)), w1))"

definition saveBlob ::
  "platform \<Rightarrow> Env option \<Rightarrow> faults \<Rightarrow> bytes \<Rightarrow> nat \<Rightarrow> string \<Rightarrow> string \<Rightarrow> string \<Rightarrow> nat \<Rightarrow>
   world \<Rightarrow> (error + BlobMetadata) \<times> world" where
  "saveBlob plat env flt stream sz ty workspace nm lastModified w =
     (case selectStorage env workspace of
        Inl e \<Rightarrow> (Inl e, w)
      | Inr location \<Rightarrow>
          (let httpMetadata = \<lparr>hm_contentType = Some ty, hm_cacheControl = Some (cacheControl plat)\<rparr>;
               (filename, w0) = getUniqueFilename plat w;
               metadata = \<lparr>md_lastModified = lastModified, md_type = ty, md_size = sz, md_name = nm\<rparr>
           in if sz \<le> hashLimit plat then
                (let hash = getSha256 plat stream
                 in case db_getData flt hash location w0 of
                      (Inl e, w1) \<Rightarrow> (Inl e, w1)
                    | (Inr (Some d), w1) \<Rightarrow>
                        (case db_createBlob flt workspace nm hash location w1 of
                           (Inl e, w2) \<Rightarrow> (Inl e, w2)
                         | (Inr u, w2) \<Rightarrow> (Inr metadata, w2))
                    | (Inr None, w1) \<Rightarrow>
                        (case bucket_put plat flt location filename stream httpMetadata w1 of
                           (Inl e, w2) \<Rightarrow> (Inl e, w2)
                         | (Inr u, w2) \<Rightarrow>
                             (case sql_begin flt \<lparr>d_hash = hash, d_location = location,
                                                  d_filename = filename, d_type = ty, d_size = sz\<rparr>
                                     workspace nm w2 of
                                (Inl e, w3) \<Rightarrow> (Inl e, w3)
                              | (Inr u, w3) \<Rightarrow> (Inr metadata, w3))))
              else
                (case uploadLargeFile plat flt location stream filename httpMetadata w0 of
                   (Inl e, w1) \<Rightarrow> (Inl e, w1)
                 | (Inr hash, w1) \<Rightarrow>
                     (case db_getData flt hash location w1 of
                        (Inl e, w2) \<Rightarrow> (Inl e, w2)
                      | (Inr (Some d), w2) \<Rightarrow>
                          (case promise_all (bucket_delete flt location filename)
                                            (db_createBlob flt workspace nm hash location) w2 of
                             (Inl e, w3) \<Rightarrow> (Inl e, w3)
                           | (Inr u, w3) \<Rightarrow> (Inr metadata, w3))
                      | (Inr None, w2) \<Rightarrow>
                          (case sql_begin flt \<lparr>d_hash = hash, d_location = location,
                                               d_filename = filename, d_type = ty, d_size = sz\<rparr>
                                  workspace nm w2 of
                             (Inl e, w3) \<Rightarrow> (Inl e, w3)
                           | (Inr u, w3) \<Rightarrow> (Inr metadata, w3))))))"

definition handleBlobUploaded ::
  "platform \<Rightarrow> Env option \<Rightarrow> faults \<Rightarrow> string \<Rightarrow> string \<Rightarrow> UUID \<Rightarrow> world \<Rightarrow> (error + unit) \<times> world" where
  "handleBlobUploaded plat env flt workspace nm filename w =
     (case selectStorage env workspace of
        Inl e \<Rightarrow> (Inl e, w)
      | Inr location \<Rightarrow>
          (case bucket_head flt location filename w of
             (Inl e, w1) \<Rightarrow> (Inl e, w1)
           | (Inr None, w1) \<Rightarrow> (Inl BlobNotFound, w1)
           | (Inr (Some object), w1) \<Rightarrow>
               (case o_httpMetadata object of
                  None \<Rightarrow> (Inl BlobNotFound, w1)
                | Some hm \<Rightarrow>
                    (let (hash, w2) = (case o_md5 object of
                                         Some md5 \<Rightarrow> (digestToUUID plat md5, w1)
                                       | None \<Rightarrow> crypto_randomUUID plat w1)
                     in withPostgres env flt
                          (\<lambda>w3. case db_getData flt hash location w3 of
                                   (Inl e, w4) \<Rightarrow> (Inl e, w4)
                                 | (Inr (Some d), w4) \<Rightarrow>
                                     (case promise_all (bucket_delete flt location filename)
                                                       (db_createBlob flt workspace nm hash location) w4 of
                                        (Inl e, w5) \<Rightarrow> (Inl e, w5)
                                      | (Inr u, w5) \<Rightarrow> (Inr (), w5))
                                 | (Inr None, w4) \<Rightarrow>
                                     sql_begin flt
                                       \<lparr>d_hash = hash, d_location = location, d_filename = filename,
                                        d_type = (case hm_contentType hm of
                                                    Some t \<Rightarrow> t
                                                  | None \<Rightarrow> ''application/octet-stream''),
                                        d_size = o_size object\<rparr>
                                       workspace nm w4) w2))))"

subsection \<open>Form-data upload\<close>

text \<open>A \<^verbatim>\<open>File\<close> of a form: its \<^verbatim>\<open>size\<close> is the length of its bytes. A form value is a
  string or a \<^verbatim>\<open>File\<close> (\<^verbatim>\<open>typeof value === 'object'\<close>).\<close>

record File =
  f_name :: string
  f_type :: string
  f_lastModified :: nat
  f_bytes :: bytes

datatype form_value = Field string | FileValue File

text \<open>A request to a workspace route after \<^verbatim>\<open>withWorkspace\<close>. \<open>wr_formData\<close> is \<open>None\<close>
  when \<^verbatim>\<open>request.formData()\<close> rejects.\<close>

record WorkspaceRequest =
  wr_workspace :: string
  wr_origin :: string
  wr_contentType :: "string option"
  wr_formData :: "(string \<times> form_value) list option"

fun str_includes :: "string \<Rightarrow> string \<Rightarrow> bool" where
  "str_includes [] pat = (pat = [])"
| "str_includes (c # cs) pat = (take (length pat) (c # cs) = pat \<or> str_includes cs pat)"

definition startsWith :: "string \<Rightarrow> string \<Rightarrow> bool" where
  "startsWith s pat = (take (length pat) s = pat)"

fun form_files :: "(string \<times> form_value) list \<Rightarrow> (File \<times> string) list" where
  "form_files [] = []"
| "form_files ((k, Field s) # rest) = form_files rest"
| "form_files ((k, FileValue f) # rest) = (f, k) # form_files rest"

text \<open>The body of \<^verbatim>\<open>files.map(async ([file, key]) => ...)\<close> in \<^verbatim>\<open>handleUploadFormData\<close>.\<close>

definition uploadFile ::
  "platform \<Rightarrow> Env option \<Rightarrow> faults \<Rightarrow> WorkspaceRequest \<Rightarrow> File \<times> string \<Rightarrow> world \<Rightarrow>
   (string \<times> upload_outcome) \<times> world" where
  "uploadFile plat env flt request fk w =
     (case fk of (file, k) \<Rightarrow>
        (case withPostgres env flt
                (saveBlob plat env flt (f_bytes file) (length (f_bytes file)) (f_type file)
                   (wr_workspace request) (f_name file) (f_lastModified file)) w of
           (Inl err, w1) \<Rightarrow> ((k, Error err), w1)
         | (Inr metadata, w1) \<Rightarrow>
             if startsWith (f_type file) ''video/'' then
               (case copyVideo flt
                       (getBlobURL (wr_origin request) (wr_workspace request) (f_name file))
                       (wr_workspace request) (f_name file) w1 of
                  (Inl err, w2) \<Rightarrow> ((k, Error err), w2)
                | (Inr u, w2) \<Rightarrow> ((k, Metadata metadata), w2))
             else ((k, Metadata metadata), w1)))"

text \<open>\<^verbatim>\<open>Promise.all(files.map(...))\<close>: no mapped promise rejects (each catches its own
  errors), so the result has one entry per file. The files are taken in their order.\<close>

fun uploadFiles ::
  "platform \<Rightarrow> Env option \<Rightarrow> faults \<Rightarrow> WorkspaceRequest \<Rightarrow> (File \<times> string) list \<Rightarrow> world \<Rightarrow>
   (string \<times> upload_outcome) list \<times> world" where
  "uploadFiles plat env flt request [] w = ([], w)"
| "uploadFiles plat env flt request (fk # rest) w =
     (case uploadFile plat env flt request fk w of
        (r, w1) \<Rightarrow>
          (case uploadFiles plat env flt request rest w1 of
             (rs, w2) \<Rightarrow> (r # rs, w2)))"

definition handleUploadFormData ::
  "platform \<Rightarrow> Env option \<Rightarrow> faults \<Rightarrow> WorkspaceRequest \<Rightarrow> world \<Rightarrow> (error + response) \<times> world" where
  "handleUploadFormData plat env flt request w =
     (case wr_contentType request of
        None \<Rightarrow> (Inr (error_response 400 (Some ''expected multipart/form-data'')), w)
      | Some contentType \<Rightarrow>
          if \<not> str_includes contentType ''multipart/form-data''
          then (Inr (error_response 400 (Some ''expected multipart/form-data'')), w)
          else
            (case wr_formData request of
               None \<Rightarrow> (Inr (error_response 400 (Some ''failed to parse form data'')), w)
             | Some formData \<Rightarrow>
                 (case uploadFiles plat env flt request (form_files formData) w of
                    (result, w1) \<Rightarrow> (Inr (json result), w1))))"

section \<open>The worker entry point\<close>

datatype http_method = GET | HEAD | DELETE | POST | PUT | OPTIONS

text \<open>A \<^verbatim>\<open>Request\<close>: method, origin and path of its URL, the Range and Content-Type headers
  and the form its body parses to (\<open>None\<close> when \<^verbatim>\<open>formData()\<close> rejects, as it does for a
  request without a body).\<close>

record Request =
  rt_method :: http_method
  rt_origin :: string
  rt_pathname :: string
  rt_range :: "r2range option"
  rt_contentType :: "string option"
  rt_formData :: "(string \<times> form_value) list option"

fun split_on :: "char \<Rightarrow> string \<Rightarrow> string list" where
  "split_on c [] = [[]]"
| "split_on c (x # xs) =
     (if x = c then [] # split_on c xs
      else (case split_on c xs of
              [] \<Rightarrow> [[x]]
            | y # ys \<Rightarrow> (x # y) # ys))"

text \<open>The segments of a path: it starts with a slash, and the route patterns accept any
  number of trailing slashes.\<close>

definition path_segments :: "string \<Rightarrow> string list" where
  "path_segments p = rev (dropWhile (\<lambda>s. s = []) (rev (tl (split_on CHR ''/'' p))))"

datatype route =
    BlobGet | BlobHead | BlobDelete | ImageGet | VideoMetaGet | UploadFormData
  | SignCreate | SignComplete | SignAbort
  | MultipartStart | MultipartPart | MultipartComplete | MultipartAbort
  | S3Blob | Root | NotFound

text \<open>A pattern is a list of segments, a literal (\<open>Some\<close>) or a parameter (\<open>None\<close>); a
  parameter takes one non-empty segment.\<close>

fun matches :: "string option list \<Rightarrow> string list \<Rightarrow> bool" where
  "matches [] [] = True"
| "matches (Some lit # ps) (s # ss) = (s = lit \<and> matches ps ss)"
| "matches (None # ps) (s # ss) = (s \<noteq> [] \<and> matches ps ss)"
| "matches ps ss = False"

text \<open>The route table of the router, in its order.\<close>

definition routes :: "(http_method option \<times> string option list \<times> route) list" where
  "routes =
     [(Some GET, [Some ''blob'', None, None], BlobGet),
      (Some HEAD, [Some ''blob'', None, None], BlobHead),
      (Some DELETE, [Some ''blob'', None, None], BlobDelete),
      (Some GET, [Some ''image'', None, None, None], ImageGet),
      (Some GET, [Some ''video'', None, None, Some ''meta''], VideoMetaGet),
      (Some POST, [Some ''upload'', Some ''form-data'', None], UploadFormData),
      (Some POST, [Some ''upload'', Some ''signed-url'', None, None], SignCreate),
      (Some PUT, [Some ''upload'', Some ''signed-url'', None, None], SignComplete),
      (Some DELETE, [Some ''upload'', Some ''signed-url'', None, None], SignAbort),
      (Some POST, [Some ''upload'', Some ''multipart'', None, None], MultipartStart),
      (Some POST, [Some ''upload'', Some ''multipart'', None, None, Some ''part''], MultipartPart),
      (Some POST, [Some ''upload'', Some ''multipart'', None, None, Some ''complete''], MultipartComplete),
      (Some POST, [Some ''upload'', Some ''multipart'', None, None, Some ''abort''], MultipartAbort),
      (Some POST, [Some ''upload'', Some ''s3'', None, None], S3Blob),
      (None, [], Root)]"

text \<open>The first route whose method and pattern match; \<^verbatim>\<open>.all('*', () => error(404))\<close>
  takes what is left.\<close>

fun find_route ::
  "(http_method option \<times> string option list \<times> route) list \<Rightarrow> http_method \<Rightarrow> string list \<Rightarrow> route" where
  "find_route [] m segs = NotFound"
| "find_route ((m', pat, r) # rest) m segs =
     (if (m' = Some m \<or> m' = None) \<and> matches pat segs then r else find_route rest m segs)"

text \<open>\<^verbatim>\<open>withBlob\<close> and \<^verbatim>\<open>withWorkspace\<close>: the parameters of the path, decoded.\<close>

definition withBlob :: "platform \<Rightarrow> Request \<Rightarrow> string \<Rightarrow> string \<Rightarrow> error + (response + BlobRequest)" where
  "withBlob plat request p_workspace p_name =
     (if p_workspace = [] then Inr (Inl (error_response 400 (Some ''Missing workspace'')))
      else if p_name = [] then Inr (Inl (error_response 400 (Some ''Missing blob name'')))
      else (case decodeURIComponent plat p_workspace of
              None \<Rightarrow> Inl URIError
            | Some workspace \<Rightarrow>
                (case decodeURIComponent plat p_name of
                   None \<Rightarrow> Inl URIError
                 | Some nm \<Rightarrow> Inr (Inr \<lparr>rq_workspace = workspace, rq_name = nm,
                                         rq_range = rt_range request\<rparr>))))"

definition withWorkspace :: "platform \<Rightarrow> Request \<Rightarrow> string \<Rightarrow> error + (response + WorkspaceRequest)" where
  "withWorkspace plat request p_workspace =
     (if p_workspace = [] then Inr (Inl (error_response 400 (Some ''Missing workspace'')))
      else (case decodeURIComponent plat p_workspace of
              None \<Rightarrow> Inl URIError
            | Some workspace \<Rightarrow>
                Inr (Inr \<lparr>wr_workspace = workspace, wr_origin = rt_origin request,
                          wr_contentType = rt_contentType request,
                          wr_formData = rt_formData request\<rparr>)))"

text \<open>\<^verbatim>\<open>router.fetch(request, env, ctx)\<close>. The handlers of the image, video, signed-url,
  multipart and S3 routes are not in the sources: \<open>others\<close> stands for them. \<open>env\<close> is
  \<open>None\<close> when the caller passes no usable \<^verbatim>\<open>Env\<close>. The stages around the routes
  (\<^verbatim>\<open>preflight\<close>, \<^verbatim>\<open>corsify\<close> and the request timers) add CORS headers and log; they are
  left out.\<close>

definition router_fetch ::
  "platform \<Rightarrow> (route \<Rightarrow> Request \<Rightarrow> world \<Rightarrow> (error + response) \<times> world) \<Rightarrow> Env option \<Rightarrow> faults \<Rightarrow>
   Request \<Rightarrow> world \<Rightarrow> (error + response) \<times> world" where
  "router_fetch plat others env flt request w =
     (let segs = path_segments (rt_pathname request);
          r = find_route routes (rt_method request) segs
      in if r = BlobGet \<or> r = BlobHead \<or> r = BlobDelete then
           (case withBlob plat request (segs ! 1) (segs ! 2) of
              Inl e \<Rightarrow> (Inl e, w)
            | Inr (Inl resp) \<Rightarrow> (Inr resp, w)
            | Inr (Inr breq) \<Rightarrow>
                if r = BlobGet then handleBlobGet plat env flt breq w
                else if r = BlobHead then handleBlobHead plat env flt breq w
                else handleBlobDelete env flt breq w)
         else if r = UploadFormData then
           (case withWorkspace plat request (segs ! 2) of
              Inl e \<Rightarrow> (Inl e, w)
            | Inr (Inl resp) \<Rightarrow> (Inr resp, w)
            | Inr (Inr wreq) \<Rightarrow> handleUploadFormData plat env flt wreq w)
         else if r = Root then
           (Inr \<lparr>status = 200, headers = [(''content-type'', ''text/html'')], body = Html\<rparr>, w)
         else if r = NotFound then (Inr (error_response 404 None), w)
         else others r request w)"

text \<open>\<^verbatim>\<open>DatalakeWorker.fetch\<close>: the HTTP surface. An exception of a handler becomes a 500
  response (\<^verbatim>\<open>.catch(error)\<close>).\<close>

definition worker_fetch ::
  "platform \<Rightarrow> (route \<Rightarrow> Request \<Rightarrow> world \<Rightarrow> (error + response) \<times> world) \<Rightarrow> Env \<Rightarrow> faults \<Rightarrow>
   Request \<Rightarrow> world \<Rightarrow> response \<times> world" where
  "worker_fetch plat others env flt request w =
     (case router_fetch plat others (Some env) flt request w of
        (Inl e, w1) \<Rightarrow> (error_response 500 None, w1)
      | (Inr resp, w1) \<Rightarrow> (resp, w1))"

text \<open>\<^verbatim>\<open>DatalakeWorker.getBlob\<close>: \<^verbatim>\<open>new Request(url)\<close> is a GET without headers, and
  \<^verbatim>\<open>router.fetch(request)\<close> passes neither \<^verbatim>\<open>env\<close> nor \<^verbatim>\<open>ctx\<close> to the handlers. The result is
  the body of the response (\<^verbatim>\<open>response.arrayBuffer()\<close>).\<close>

definition getBlob ::
  "platform \<Rightarrow> (route \<Rightarrow> Request \<Rightarrow> world \<Rightarrow> (error + response) \<times> world) \<Rightarrow> faults \<Rightarrow>
   string \<Rightarrow> string \<Rightarrow> world \<Rightarrow> (error + body) \<times> world" where
  "getBlob plat others flt workspace nm w =
     (let request = \<lparr>rt_method = GET, rt_origin = ''https://datalake'',
                     rt_pathname = ''/blob/'' @ workspace @ ''/'' @ nm,
                     rt_range = None, rt_contentType = None, rt_formData = None\<rparr>
      in case router_fetch plat others None flt request w of
           (Inl e, w1) \<Rightarrow> (Inl e, w1)
         | (Inr resp, w1) \<Rightarrow>
             if \<not> ok resp then (Inl (FailedToFetch (status resp)), w1)
             else (Inr (body resp), w1))"

text \<open>\<^verbatim>\<open>DatalakeWorker.putBlob\<close>: \<^verbatim>\<open>new Request(url)\<close> is a GET without a body; the form
  with the file goes, with \<^verbatim>\<open>method: 'POST'\<close>, into the second argument of
  \<^verbatim>\<open>router.fetch\<close>, which the router hands to the handlers in the place of \<^verbatim>\<open>env\<close>: the
  request itself stays a GET without body, and the handlers get no usable \<^verbatim>\<open>Env\<close>.\<close>

definition putBlob ::
  "platform \<Rightarrow> (route \<Rightarrow> Request \<Rightarrow> world \<Rightarrow> (error + response) \<times> world) \<Rightarrow> faults \<Rightarrow>
   string \<Rightarrow> string \<Rightarrow> bytes \<Rightarrow> string \<Rightarrow> world \<Rightarrow> (error + unit) \<times> world" where
  "putBlob plat others flt workspace nm data ty w =
     (let request = \<lparr>rt_method = GET, rt_origin = ''https://datalake'',
                     rt_pathname = ''/upload/form-data/'' @ workspace,
                     rt_range = None, rt_contentType = None, rt_formData = None\<rparr>;
          form_body = [(''file'', FileValue \<lparr>f_name = nm, f_type = ty, f_lastModified = now w,
                                            f_bytes = data\<rparr>)]
      in case router_fetch plat others None flt request w of
           (Inl e, w1) \<Rightarrow> (Inl e, w1)
         | (Inr resp, w1) \<Rightarrow>
             if \<not> ok resp then (Inl (FailedToFetch (status resp)), w1)
             else (Inr (), w1))"

section \<open>Table contents and example inputs\<close>

text \<open>The rows of a table under one key.\<close>

definition data_rows :: "data_row list \<Rightarrow> UUID \<Rightarrow> location \<Rightarrow> data_row list" where
  "data_rows tbl h loc = filter (\<lambda>d. d_hash d = h \<and> d_location d = loc) tbl"

definition blob_rows :: "blob_row list \<Rightarrow> string \<Rightarrow> string \<Rightarrow> blob_row list" where
  "blob_rows tbl workspace nm = filter (blob_key workspace nm) tbl"

text \<open>A platform for the examples, with the size threshold as parameter: digest and
  identifier encoding are the identity, the n-th random UUID is \<open>n + 1\<close> letters k.\<close>

definition ex_plat :: "nat \<Rightarrow> platform" where
  "ex_plat lim =
     \<lparr>hashLimit = lim, cacheControl = ''immutable'', sha256 = (\<lambda>b. b), toUUID = (\<lambda>b. b),
      randomUUID = (\<lambda>n. replicate (Suc n) CHR ''k''),
      toUTCString = (\<lambda>t. ''Thu, 01 Jan 1970 00:00:00 GMT''),
      r2_md5 = (\<lambda>b. Some b), r2_etag = (\<lambda>b. ''etag''), decodeURIComponent = Some\<rparr>"

definition ex_env :: Env where
  "ex_env = \<lparr>selectLocation = (\<lambda>workspace. ''weur'')\<rparr>"

definition no_faults :: faults where
  "no_faults = (\<lambda>op. False)"

definition only_fault :: "io \<Rightarrow> faults" where
  "only_fault x = (\<lambda>op. op = x)"

definition w_empty :: world where
  "w_empty = \<lparr>data_tbl = [], blob_tbl = [], objects = [], cache = [], media = [],
              drawn = 0, now = 0\<rparr>"

definition ex_object :: r2object where
  "ex_object =
     \<lparr>o_size = 10,
      o_httpMetadata = Some \<lparr>hm_contentType = Some ''text/plain'',
                              hm_cacheControl = Some ''immutable''\<rparr>,
      o_uploaded = 0, o_httpEtag = ''etag'', o_md5 = Some ''hello-huly'', o_range = None,
      o_body = ''hello-huly''\<rparr>"

definition ex_data :: data_row where
  "ex_data = \<lparr>d_hash = ''hello-huly'', d_location = ''weur'', d_filename = ''k'',
              d_type = ''text/plain'', d_size = 10\<rparr>"

definition ex_blob :: "string \<Rightarrow> blob_row" where
  "ex_blob nm = \<lparr>b_workspace = ''ws'', b_name = nm, b_hash = ''hello-huly'',
                 b_location = ''weur'', b_deleted = False\<rparr>"

definition ex_metadata :: "string \<Rightarrow> nat \<Rightarrow> BlobMetadata" where
  "ex_metadata nm lm = \<lparr>md_lastModified = lm, md_type = ''text/plain'', md_size = 10, md_name = nm\<rparr>"

text \<open>The world after the ten bytes \<open>hello-huly\<close> were ingested as \<open>a.txt\<close>, and after
  they were ingested again as \<open>b.txt\<close>.\<close>

definition ex_a :: world where
  "ex_a = \<lparr>data_tbl = [ex_data], blob_tbl = [ex_blob ''a.txt''],
           objects = [((''weur'', ''k''), ex_object)], cache = [], media = [],
           drawn = 1, now = 0\<rparr>"

definition ex_ab :: world where
  "ex_ab = \<lparr>data_tbl = [ex_data], blob_tbl = [ex_blob ''a.txt'', ex_blob ''b.txt''],
            objects = [((''weur'', ''k''), ex_object)], cache = [], media = [],
            drawn = 2, now = 0\<rparr>"

definition ex_request :: "string \<Rightarrow> BlobRequest" where
  "ex_request nm = \<lparr>rq_workspace = ''ws'', rq_name = nm, rq_range = None\<rparr>"

text \<open>The full response to a GET of \<open>a.txt\<close>, the world once the edge cache holds it,
  and that world after \<open>a.txt\<close> was deleted.\<close>

definition ex_a_response :: response where
  "ex_a_response =
     \<lparr>status = 200,
      headers = [(''Accept-Ranges'', ''bytes''), (''Content-Length'', ''10''),
                 (''Content-Type'', ''text/plain''),
                 (''Content-Security-Policy'', ''default-src 'none';''),
                 (''Cache-Control'', ''immutable''),
                 (''Last-Modified'', ''Thu, 01 Jan 1970 00:00:00 GMT''),
                 (''ETag'', ''etag'')],
      body = Bytes ''hello-huly''\<rparr>"

definition ex_a_cached :: world where
  "ex_a_cached = ex_a\<lparr>cache := [(ex_request ''a.txt'', ex_a_response)]\<rparr>"

definition ex_a_deleted :: world where
  "ex_a_deleted = ex_a_cached\<lparr>blob_tbl := [(ex_blob ''a.txt'')\<lparr>b_deleted := True\<rparr>]\<rparr>"

text \<open>The world with \<open>a.txt\<close> and \<open>b.txt\<close> after \<open>a.txt\<close> was deleted.\<close>

definition ex_ab_deleted :: world where
  "ex_ab_deleted = ex_ab\<lparr>blob_tbl := [(ex_blob ''a.txt'')\<lparr>b_deleted := True\<rparr>, ex_blob ''b.txt'']\<rparr>"

text \<open>A multipart form request to the workspace \<open>ws\<close>, and a text file of the ten bytes.\<close>

definition ex_form :: "(string \<times> form_value) list \<Rightarrow> WorkspaceRequest" where
  "ex_form fd = \<lparr>wr_workspace = ''ws'', wr_origin = ''https://datalake'',
                 wr_contentType = Some ''multipart/form-data; boundary=x'',
                 wr_formData = Some fd\<rparr>"

definition ex_file :: "string \<Rightarrow> string \<Rightarrow> nat \<Rightarrow> File" where
  "ex_file nm ty lm = \<lparr>f_name = nm, f_type = ty, f_lastModified = lm, f_bytes = ''hello-huly''\<rparr>"

text \<open>Worlds with an object \<open>up1\<close> written to the bucket out of band: one where the store
  already has the content and the bucket reports a checksum, and one with nothing else in
  it where the bucket reports no checksum.\<close>

definition ex_a_oob :: world where
  "ex_a_oob = ex_a\<lparr>objects := [((''weur'', ''k''), ex_object), ((''weur'', ''up1''), ex_object)]\<rparr>"

definition ex_oob :: world where
  "ex_oob = w_empty\<lparr>objects := [((''weur'', ''up1''), ex_object\<lparr>o_md5 := None\<rparr>)]\<rparr>"

text \<open>A batch of two files and a text field; and a form with one video.\<close>

definition ex_batch :: WorkspaceRequest where
  "ex_batch = ex_form [(''f1'', FileValue (ex_file ''bad.txt'' ''text/plain'' 6)),
                       (''note'', Field ''x''),
                       (''f2'', FileValue (ex_file ''a.txt'' ''text/plain'' 7))]"

definition ex_video :: WorkspaceRequest where
  "ex_video = ex_form [(''file'', FileValue (ex_file ''clip.mp4'' ''video/mp4'' 7))]"

text \<open>The world after the video was stored, before the copy to the media collaborator.\<close>

definition ex_video_stored :: world where
  "ex_video_stored =
     \<lparr>data_tbl = [ex_data\<lparr>d_type := ''video/mp4''\<rparr>],
      blob_tbl = [ex_blob ''clip.mp4''],
      objects = [((''weur'', ''k''),
                  ex_object\<lparr>o_httpMetadata := Some \<lparr>hm_contentType = Some ''video/mp4'',
                                                      hm_cacheControl = Some ''immutable''\<rparr>\<rparr>)],
      cache = [], media = [], drawn = 1, now = 0\<rparr>"

text \<open>A world with a 1000-byte object stored as \<open>big.bin\<close>, the request for its first
  hundred bytes (\<^verbatim>\<open>Range: bytes=0-99\<close>), and the response of the code to that request.\<close>

definition ex_big :: world where
  "ex_big =
     \<lparr>data_tbl = [\<lparr>d_hash = ''h1000'', d_location = ''weur'', d_filename = ''big'',
                    d_type = ''application/octet-stream'', d_size = 1000\<rparr>],
      blob_tbl = [\<lparr>b_workspace = ''ws'', b_name = ''big.bin'', b_hash = ''h1000'',
                    b_location = ''weur'', b_deleted = False\<rparr>],
      objects = [((''weur'', ''big''),
                  \<lparr>o_size = 1000,
                   o_httpMetadata = Some \<lparr>hm_contentType = Some ''application/octet-stream'',
                                           hm_cacheControl = Some ''immutable''\<rparr>,
                   o_uploaded = 0, o_httpEtag = ''etag'', o_md5 = None, o_range = None,
                   o_body = replicate 1000 CHR ''x''\<rparr>)],
      cache = [], media = [], drawn = 1, now = 0\<rparr>"

definition ex_range_request :: BlobRequest where
  "ex_range_request =
     \<lparr>rq_workspace = ''ws'', rq_name = ''big.bin'',
      rq_range = Some \<lparr>r_offset = Some 0, r_length = Some 100, r_suffix = None\<rparr>\<rparr>"

definition ex_range_response :: response where
  "ex_range_response =
     \<lparr>status = 206,
      headers = [(''Accept-Ranges'', ''bytes''), (''Content-Length'', ''1000''),
                 (''Content-Type'', ''application/octet-stream''),
                 (''Content-Security-Policy'', ''default-src 'none';''),
                 (''Cache-Control'', ''immutable''),
                 (''Last-Modified'', ''Thu, 01 Jan 1970 00:00:00 GMT''),
                 (''ETag'', ''etag''),
                 (''Content-Range'', ''bytes 0-99/1000'')],
      body = Bytes (replicate 100 CHR ''x'')\<rparr>"

text \<open>Requests to the worker: the POST of a form with \<open>a.txt\<close>, and the GET of \<open>a.txt\<close>.
  The routes whose handlers are not modelled answer 501 in the examples.\<close>

definition ex_others :: "route \<Rightarrow> Request \<Rightarrow> world \<Rightarrow> (error + response) \<times> world" where
  "ex_others r request w = (Inr (error_response 501 None), w)"

definition ex_post :: Request where
  "ex_post =
     \<lparr>rt_method = POST, rt_origin = ''https://datalake'',
      rt_pathname = ''/upload/form-data/ws'', rt_range = None,
      rt_contentType = Some ''multipart/form-data; boundary=x'',
      rt_formData = Some [(''file'', FileValue (ex_file ''a.txt'' ''text/plain'' 0))]\<rparr>"

definition ex_get :: Request where
  "ex_get =
     \<lparr>rt_method = GET, rt_origin = ''https://datalake'', rt_pathname = ''/blob/ws/a.txt'',
      rt_range = None, rt_contentType = None, rt_formData = None\<rparr>"

section \<open>Properties\<close>

subsection \<open>Auxiliary facts\<close>

lemmas io_defs = selectStorage_def withPostgres_def db_getBlob_def db_getData_def
  db_createBlob_def db_deleteBlob_def sql_begin_def promise_all_def bucket_head_def
  bucket_put_def bucket_delete_def copyVideo_def deleteVideo_def getUniqueFilename_def
  crypto_randomUUID_def uploadLargeFile_def getSha256_def digestToUUID_def

lemmas ex_defs = ex_plat_def ex_env_def no_faults_def only_fault_def w_empty_def ex_object_def
  ex_data_def ex_blob_def ex_metadata_def ex_a_def ex_ab_def ex_request_def

lemma getData_None_rows: "getData tbl h loc = None \<longleftrightarrow> data_rows tbl h loc = []"
  by (auto simp: getData_def data_rows_def find_None_iff filter_empty_conv)

lemma data_rows_createData:
  "data_rows (createData tbl row) (d_hash row) (d_location row) =
     (if data_rows tbl (d_hash row) (d_location row) = [] then [row]
      else data_rows tbl (d_hash row) (d_location row))"
proof (cases "getData tbl (d_hash row) (d_location row)")
  case None
  then have "data_rows tbl (d_hash row) (d_location row) = []"
    by (simp add: getData_None_rows)
  with None show ?thesis
    by (simp add: createData_def) (simp add: data_rows_def)
next
  case (Some d)
  then have "data_rows tbl (d_hash row) (d_location row) \<noteq> []"
    using getData_None_rows [of tbl "d_hash row" "d_location row"] by simp
  with Some show ?thesis
    by (simp add: createData_def)
qed

lemma createData_idem:
  assumes k: "d_hash row' = d_hash row" "d_location row' = d_location row"
  shows "createData (createData tbl row) row' = createData tbl row"
proof -
  have "data_rows (createData tbl row) (d_hash row) (d_location row) \<noteq> []"
    by (simp add: data_rows_createData)
  then have "getData (createData tbl row) (d_hash row) (d_location row) \<noteq> None"
    by (simp add: getData_None_rows)
  then show ?thesis
    by (auto simp: createData_def [of "createData tbl row"] k)
qed

lemma blob_rows_createBlob_same:
  "blob_rows (createBlob tbl ws nm h loc) ws nm =
     (if blob_rows tbl ws nm = []
      then [\<lparr>b_workspace = ws, b_name = nm, b_hash = h, b_location = loc, b_deleted = False\<rparr>]
      else map (\<lambda>b. b\<lparr>b_hash := h, b_location := loc, b_deleted := False\<rparr>) (blob_rows tbl ws nm))"
proof (cases "list_ex (blob_key ws nm) tbl")
  case True
  then have ne: "blob_rows tbl ws nm \<noteq> []"
    by (auto simp: blob_rows_def list_ex_iff filter_empty_conv)
  have "filter (blob_key ws nm)
          (map (\<lambda>b. if blob_key ws nm b then b\<lparr>b_hash := h, b_location := loc, b_deleted := False\<rparr> else b) xs)
        = map (\<lambda>b. b\<lparr>b_hash := h, b_location := loc, b_deleted := False\<rparr>) (filter (blob_key ws nm) xs)"
    for xs
    by (induction xs) (auto simp: blob_key_def)
  with True ne show ?thesis
    by (simp add: createBlob_def blob_rows_def)
next
  case False
  then have e: "blob_rows tbl ws nm = []"
    by (auto simp: blob_rows_def list_ex_iff filter_empty_conv)
  with False show ?thesis
    by (simp add: createBlob_def) (simp add: blob_rows_def blob_key_def)
qed

lemma blob_rows_createBlob_other:
  assumes "(ws', nm') \<noteq> (ws, nm)"
  shows "blob_rows (createBlob tbl ws nm h loc) ws' nm' = blob_rows tbl ws' nm'"
proof -
  have "filter (blob_key ws' nm')
          (map (\<lambda>b. if blob_key ws nm b then b\<lparr>b_hash := h, b_location := loc, b_deleted := False\<rparr> else b) xs)
        = filter (blob_key ws' nm') xs" for xs
    using assms by (induction xs) (auto simp: blob_key_def)
  with assms show ?thesis
    by (auto simp: createBlob_def blob_rows_def blob_key_def)
qed

lemma blob_rows_singleton:
  assumes "length (blob_rows tbl ws nm) \<le> 1"
  shows "blob_rows (createBlob tbl ws nm h loc) ws nm =
           [\<lparr>b_workspace = ws, b_name = nm, b_hash = h, b_location = loc, b_deleted = False\<rparr>]"
proof (cases "blob_rows tbl ws nm")
  case Nil
  then show ?thesis by (simp add: blob_rows_createBlob_same)
next
  case (Cons b bs)
  with assms have bs: "bs = []" by simp
  have "b \<in> set (blob_rows tbl ws nm)" using Cons by simp
  then have "blob_key ws nm b" by (simp add: blob_rows_def)
  then have "b\<lparr>b_hash := h, b_location := loc, b_deleted := False\<rparr> =
             \<lparr>b_workspace = ws, b_name = nm, b_hash = h, b_location = loc, b_deleted = False\<rparr>"
    by (cases b) (simp add: blob_key_def)
  with Cons bs show ?thesis by (simp add: blob_rows_createBlob_same)
qed

lemma find_deleteBlob:
  "find (blob_key ws nm) (deleteBlob tbl ws nm) =
     map_option (\<lambda>b. b\<lparr>b_deleted := True\<rparr>) (find (blob_key ws nm) tbl)"
  by (induction tbl) (auto simp: deleteBlob_def blob_key_def)

lemma find_deleteBlob_other:
  "(ws', nm') \<noteq> (ws, nm) \<Longrightarrow>
   find (blob_key ws' nm') (deleteBlob tbl ws nm) = find (blob_key ws' nm') tbl"
  by (induction tbl) (auto simp: deleteBlob_def blob_key_def)

lemma getBlob_row_deleted:
  assumes "blob_tbl w' = deleteBlob (blob_tbl w) ws nm" "data_tbl w' = data_tbl w"
  shows "getBlob_row w' ws nm = None \<or> (\<exists>b. getBlob_row w' ws nm = Some b \<and> bd_deleted b)"
  using assms by (auto simp: getBlob_row_def find_deleteBlob split: option.splits)

lemma getBlob_row_other:
  assumes "blob_tbl w' = deleteBlob (blob_tbl w) ws nm" "data_tbl w' = data_tbl w"
    "(ws', nm') \<noteq> (ws, nm)"
  shows "getBlob_row w' ws' nm' = getBlob_row w ws' nm'"
  using assms by (auto simp: getBlob_row_def find_deleteBlob_other split: option.splits)

subsection \<open>Delete\<close>

lemma handleBlobDelete_cases:
  "handleBlobDelete (Some env) flt request w =
     (if flt PgConnect then (Inr (error_response 500 None), w)
      else if flt (DbDeleteBlob (rq_workspace request) (rq_name request))
        then (Inr (error_response 500 None),
              snd (deleteVideo flt (rq_workspace request) (rq_name request) w))
      else if flt (DeleteVideo (rq_workspace request) (rq_name request))
        then (Inr (error_response 500 None),
              w\<lparr>blob_tbl := deleteBlob (blob_tbl w) (rq_workspace request) (rq_name request)\<rparr>)
      else (Inr \<lparr>status = 204, headers = [], body = NoBody\<rparr>,
            w\<lparr>blob_tbl := deleteBlob (blob_tbl w) (rq_workspace request) (rq_name request),
              media := removeAll (rq_workspace request, rq_name request) (media w)\<rparr>))"
  by (simp add: handleBlobDelete_def withPostgres_def promise_all_def db_deleteBlob_def
      deleteVideo_def)

text \<open>
  Claim C10. When neither the connection to the metadata store, nor the soft-delete, nor
  the deletion of the derived media rejects, \<open>handleBlobDelete\<close> answers 204 with an empty
  body, in every state of the world: whether a Blob row of that name exists plays no role,
  and the delete of an unknown name is not a not-found.
\<close>

theorem handleBlobDelete_204_any_world:
  assumes "\<not> flt PgConnect"
    and "\<not> flt (DbDeleteBlob (rq_workspace request) (rq_name request))"
    and "\<not> flt (DeleteVideo (rq_workspace request) (rq_name request))"
  shows "fst (handleBlobDelete (Some env) flt request w) =
           Inr \<lparr>status = 204, headers = [], body = NoBody\<rparr>"
  using assms by (simp add: handleBlobDelete_cases)

theorem handleBlobDelete_204_any_world_witness:
  "blob_rows (blob_tbl w_empty) ''ws'' ''unknown.txt'' = []
   \<and> \<not> no_faults PgConnect \<and> \<not> no_faults (DbDeleteBlob ''ws'' ''unknown.txt'')
   \<and> \<not> no_faults (DeleteVideo ''ws'' ''unknown.txt'')
   \<and> fst (handleBlobDelete (Some ex_env) no_faults (ex_request ''unknown.txt'') w_empty) =
       Inr \<lparr>status = 204, headers = [], body = NoBody\<rparr>"
  using handleBlobDelete_204_any_world
          [of no_faults "ex_request ''unknown.txt''" ex_env w_empty]
  by (simp add: no_faults_def ex_request_def w_empty_def blob_rows_def)

subsection \<open>Reading after a delete\<close>

lemmas ex_defs2 = ex_a_response_def ex_a_cached_def ex_a_deleted_def ex_ab_deleted_def

lemma show_nat_10: "show_nat 10 = ''10''"
  by (simp add: show_nat.simps digit_char_def)

lemma handleBlobHead_404:
  assumes "getBlob_row w ws nm = None \<or> (\<exists>b. getBlob_row w ws nm = Some b \<and> bd_deleted b)"
    "\<not> flt PgConnect" "\<not> flt (DbGetBlob ws nm)" "rq_workspace request = ws" "rq_name request = nm"
  shows "handleBlobHead plat (Some env) flt request w = (Inr (error_response 404 None), w)"
  using assms
  by (auto simp: handleBlobHead_def selectStorage_def withPostgres_def db_getBlob_def)

lemma handleBlobGet_404:
  assumes "getBlob_row w ws nm = None \<or> (\<exists>b. getBlob_row w ws nm = Some b \<and> bd_deleted b)"
    "\<not> flt PgConnect" "\<not> flt (DbGetBlob ws nm)" "rq_workspace request = ws" "rq_name request = nm"
    "cache_match w request = None"
  shows "handleBlobGet plat (Some env) flt request w = (Inr (error_response 404 None), w)"
  using assms
  by (auto simp: handleBlobGet_def selectStorage_def withPostgres_def db_getBlob_def)

text \<open>
  Claim C4, as stated, fails. A full GET of \<open>a.txt\<close> answers 200 and puts the response
  into the edge cache; the delete of \<open>a.txt\<close> then succeeds with 204; and the next GET of
  \<open>a.txt\<close> is answered from the cache, with status 200 and the ten bytes, not with
  not-found: \<open>handleBlobGet\<close> looks into the cache before it looks at the Blob row, and
  \<open>handleBlobDelete\<close> leaves the cache alone.
\<close>

theorem get_after_delete_served_from_cache:
  "handleBlobGet (ex_plat 16) (Some ex_env) no_faults (ex_request ''a.txt'') ex_a =
     (Inr ex_a_response, ex_a_cached)
   \<and> handleBlobDelete (Some ex_env) no_faults (ex_request ''a.txt'') ex_a_cached =
       (Inr \<lparr>status = 204, headers = [], body = NoBody\<rparr>, ex_a_deleted)
   \<and> handleBlobGet (ex_plat 16) (Some ex_env) no_faults (ex_request ''a.txt'') ex_a_deleted =
       (Inr ex_a_response, ex_a_deleted)
   \<and> status ex_a_response = 200 \<and> body ex_a_response = Bytes ''hello-huly''"
proof -
  have g1: "handleBlobGet (ex_plat 16) (Some ex_env) no_faults (ex_request ''a.txt'') ex_a =
              (Inr ex_a_response, ex_a_cached)"
    by (simp add: handleBlobGet_def cache_match_def cache_put_def io_defs getBlob_row_def
        getData_def blob_key_def bucket_get_def blobGetResponse_def r2MetadataHeaders_def
        show_nat_10 Let_def ex_defs ex_defs2)
  have d: "handleBlobDelete (Some ex_env) no_faults (ex_request ''a.txt'') ex_a_cached =
             (Inr \<lparr>status = 204, headers = [], body = NoBody\<rparr>, ex_a_deleted)"
    by (simp add: handleBlobDelete_cases deleteBlob_def blob_key_def ex_defs ex_defs2)
  have g2: "handleBlobGet (ex_plat 16) (Some ex_env) no_faults (ex_request ''a.txt'') ex_a_deleted =
              (Inr ex_a_response, ex_a_deleted)"
    by (simp add: handleBlobGet_def cache_match_def ex_defs ex_defs2)
  have s: "status ex_a_response = 200 \<and> body ex_a_response = Bytes ''hello-huly''"
    by (simp add: ex_a_response_def)
  from g1 d g2 s show ?thesis by simp
qed

text \<open>
  Claim C4, amended. After a delete of a name that answered 204, the Data table and the
  bucket are as before, every HEAD of that name answers not-found, every GET of that name
  that misses the edge cache answers not-found, a GET that hits the cache answers the
  cached response, and every other name resolves to the same Data row as before the
  delete (so a second Blob on the same hash still resolves). The HEAD and the GET are
  those whose lookup of the Blob row does not reject.
\<close>

theorem delete_then_read:
  assumes del: "handleBlobDelete (Some env) flt request w = (Inr resp, w')"
    and ok: "status resp = 204"
    and same: "rq_workspace request' = rq_workspace request" "rq_name request' = rq_name request"
    and nf: "\<not> flt' PgConnect" "\<not> flt' (DbGetBlob (rq_workspace request) (rq_name request))"
  shows "data_tbl w' = data_tbl w \<and> objects w' = objects w
       \<and> handleBlobHead plat (Some env) flt' request' w' = (Inr (error_response 404 None), w')
       \<and> (cache_match w' request' = None \<longrightarrow>
            handleBlobGet plat (Some env) flt' request' w' = (Inr (error_response 404 None), w'))
       \<and> (\<forall>cached. cache_match w' request' = Some cached \<longrightarrow>
            handleBlobGet plat (Some env) flt' request' w' = (Inr cached, w'))
       \<and> (\<forall>ws2 nm2. (ws2, nm2) \<noteq> (rq_workspace request, rq_name request) \<longrightarrow>
            getBlob_row w' ws2 nm2 = getBlob_row w ws2 nm2)"
proof -
  let ?ws = "rq_workspace request" and ?nm = "rq_name request"
  from del ok have w': "w' = w\<lparr>blob_tbl := deleteBlob (blob_tbl w) ?ws ?nm,
                              media := removeAll (?ws, ?nm) (media w)\<rparr>"
    by (auto simp: handleBlobDelete_cases error_response_def split: if_splits)
  have tb: "blob_tbl w' = deleteBlob (blob_tbl w) ?ws ?nm" and td: "data_tbl w' = data_tbl w"
    and to: "objects w' = objects w"
    by (simp_all add: w')
  have gone: "getBlob_row w' ?ws ?nm = None \<or> (\<exists>b. getBlob_row w' ?ws ?nm = Some b \<and> bd_deleted b)"
    by (rule getBlob_row_deleted [OF tb td])
  have h: "handleBlobHead plat (Some env) flt' request' w' = (Inr (error_response 404 None), w')"
    by (rule handleBlobHead_404 [OF gone nf same])
  have g: "cache_match w' request' = None \<longrightarrow>
            handleBlobGet plat (Some env) flt' request' w' = (Inr (error_response 404 None), w')"
    using handleBlobGet_404 [OF gone nf same] by blast
  have c: "\<forall>cached. cache_match w' request' = Some cached \<longrightarrow>
            handleBlobGet plat (Some env) flt' request' w' = (Inr cached, w')"
    by (auto simp: handleBlobGet_def)
  have other: "\<forall>ws2 nm2. (ws2, nm2) \<noteq> (?ws, ?nm) \<longrightarrow> getBlob_row w' ws2 nm2 = getBlob_row w ws2 nm2"
    using getBlob_row_other [OF tb td] by blast
  from td to h g c other show ?thesis by blast
qed

theorem delete_then_read_witness:
  "handleBlobDelete (Some ex_env) no_faults (ex_request ''a.txt'') ex_ab =
     (Inr \<lparr>status = 204, headers = [], body = NoBody\<rparr>, ex_ab_deleted)
   \<and> data_tbl ex_ab_deleted = data_tbl ex_ab \<and> objects ex_ab_deleted = objects ex_ab
   \<and> handleBlobHead (ex_plat 16) (Some ex_env) no_faults (ex_request ''a.txt'') ex_ab_deleted =
       (Inr (error_response 404 None), ex_ab_deleted)
   \<and> cache_match ex_ab_deleted (ex_request ''a.txt'') = None
   \<and> handleBlobGet (ex_plat 16) (Some ex_env) no_faults (ex_request ''a.txt'') ex_ab_deleted =
       (Inr (error_response 404 None), ex_ab_deleted)
   \<and> getBlob_row ex_ab_deleted ''ws'' ''b.txt'' = getBlob_row ex_ab ''ws'' ''b.txt''"
proof -
  have d: "handleBlobDelete (Some ex_env) no_faults (ex_request ''a.txt'') ex_ab =
             (Inr \<lparr>status = 204, headers = [], body = NoBody\<rparr>, ex_ab_deleted)"
    by (simp add: handleBlobDelete_cases deleteBlob_def blob_key_def ex_defs ex_defs2)
  have m: "cache_match ex_ab_deleted (ex_request ''a.txt'') = None"
    by (simp add: cache_match_def ex_defs ex_defs2)
  have nf: "\<not> no_faults PgConnect"
    "\<not> no_faults (DbGetBlob (rq_workspace (ex_request ''a.txt'')) (rq_name (ex_request ''a.txt'')))"
    by (simp_all add: no_faults_def)
  have other: "(''ws'', ''b.txt'') \<noteq> (rq_workspace (ex_request ''a.txt''), rq_name (ex_request ''a.txt''))"
    by (simp add: ex_request_def)
  from delete_then_read [OF d _ refl refl nf, of "ex_plat 16"] m other d
  show ?thesis by simp
qed

subsection \<open>Ingestion\<close>

lemma saveBlob_success:
  assumes "saveBlob plat (Some env) flt stream sz ty ws nm lm w = (Inr m, w')"
  shows "blob_tbl w' = createBlob (blob_tbl w) ws nm (getSha256 plat stream) (selectLocation env ws)"
    and "data_tbl w' = createData (data_tbl w)
           \<lparr>d_hash = getSha256 plat stream, d_location = selectLocation env ws,
            d_filename = randomUUID plat (drawn w), d_type = ty, d_size = sz\<rparr>"
    and "m = \<lparr>md_lastModified = lm, md_type = ty, md_size = sz, md_name = nm\<rparr>"
  using assms
  by (auto simp: saveBlob_def io_defs createData_def Let_def
      split: if_splits option.splits)

text \<open>
  Claim C2. Two successful ingestions of the same bytes under two different names of one
  workspace, the second on the world the first left, where the store held at most one
  row per key before: afterwards there is exactly one Blob row for each of the two names,
  both with the hash of the bytes and the location of the workspace and not deleted;
  there is exactly one Data row for that (hash, location); and the second ingestion left
  the Data table as the first one left it.
\<close>

theorem saveBlob_twice_one_Data_row:
  assumes s1: "saveBlob plat (Some env) flt1 stream sz1 ty1 ws nm1 lm1 w0 = (Inr m1, w1)"
    and s2: "saveBlob plat (Some env) flt2 stream sz2 ty2 ws nm2 lm2 w1 = (Inr m2, w2)"
    and names: "nm1 \<noteq> nm2"
    and d0: "length (data_rows (data_tbl w0) (getSha256 plat stream) (selectLocation env ws)) \<le> 1"
    and b1: "length (blob_rows (blob_tbl w0) ws nm1) \<le> 1"
    and b2: "length (blob_rows (blob_tbl w0) ws nm2) \<le> 1"
  shows "blob_rows (blob_tbl w2) ws nm1 =
           [\<lparr>b_workspace = ws, b_name = nm1, b_hash = getSha256 plat stream,
             b_location = selectLocation env ws, b_deleted = False\<rparr>]
       \<and> blob_rows (blob_tbl w2) ws nm2 =
           [\<lparr>b_workspace = ws, b_name = nm2, b_hash = getSha256 plat stream,
             b_location = selectLocation env ws, b_deleted = False\<rparr>]
       \<and> length (data_rows (data_tbl w2) (getSha256 plat stream) (selectLocation env ws)) = 1
       \<and> data_tbl w2 = data_tbl w1"
proof -
  let ?h = "getSha256 plat stream" and ?loc = "selectLocation env ws"
  let ?row1 = "\<lparr>d_hash = ?h, d_location = ?loc, d_filename = randomUUID plat (drawn w0),
                 d_type = ty1, d_size = sz1\<rparr>"
  let ?row2 = "\<lparr>d_hash = ?h, d_location = ?loc, d_filename = randomUUID plat (drawn w1),
                 d_type = ty2, d_size = sz2\<rparr>"
  have bt1: "blob_tbl w1 = createBlob (blob_tbl w0) ws nm1 ?h ?loc"
    and dt1: "data_tbl w1 = createData (data_tbl w0) ?row1"
    using saveBlob_success [OF s1] by simp_all
  have bt2: "blob_tbl w2 = createBlob (blob_tbl w1) ws nm2 ?h ?loc"
    and dt2: "data_tbl w2 = createData (data_tbl w1) ?row2"
    using saveBlob_success [OF s2] by simp_all
  have same: "data_tbl w2 = data_tbl w1"
    unfolding dt2 dt1 by (rule createData_idem) simp_all
  have "data_rows (data_tbl w1) ?h ?loc =
          (if data_rows (data_tbl w0) ?h ?loc = [] then [?row1] else data_rows (data_tbl w0) ?h ?loc)"
    unfolding dt1 using data_rows_createData [of "data_tbl w0" ?row1] by simp
  with d0 have one: "length (data_rows (data_tbl w1) ?h ?loc) = 1"
    by (cases "data_rows (data_tbl w0) ?h ?loc") auto
  have r1: "blob_rows (blob_tbl w1) ws nm1 =
              [\<lparr>b_workspace = ws, b_name = nm1, b_hash = ?h, b_location = ?loc, b_deleted = False\<rparr>]"
    unfolding bt1 by (rule blob_rows_singleton [OF b1])
  have "blob_rows (blob_tbl w2) ws nm1 = blob_rows (blob_tbl w1) ws nm1"
    unfolding bt2 using names by (simp add: blob_rows_createBlob_other)
  with r1 have c1: "blob_rows (blob_tbl w2) ws nm1 =
              [\<lparr>b_workspace = ws, b_name = nm1, b_hash = ?h, b_location = ?loc, b_deleted = False\<rparr>]"
    by simp
  have "blob_rows (blob_tbl w1) ws nm2 = blob_rows (blob_tbl w0) ws nm2"
    unfolding bt1 using names by (simp add: blob_rows_createBlob_other)
  with b2 have "length (blob_rows (blob_tbl w1) ws nm2) \<le> 1" by simp
  then have c2: "blob_rows (blob_tbl w2) ws nm2 =
              [\<lparr>b_workspace = ws, b_name = nm2, b_hash = ?h, b_location = ?loc, b_deleted = False\<rparr>]"
    unfolding bt2 by (rule blob_rows_singleton)
  from c1 c2 one same show ?thesis by simp
qed

lemma saveBlob_a:
  "saveBlob (ex_plat lim) (Some ex_env) no_faults ''hello-huly'' 10 ''text/plain'' ''ws'' ''a.txt'' 7
     w_empty = (Inr (ex_metadata ''a.txt'' 7), ex_a)"
  by (simp add: saveBlob_def io_defs getData_def createData_def createBlob_def blob_key_def
      Let_def ex_defs)

lemma saveBlob_b_small:
  "saveBlob (ex_plat 16) (Some ex_env) no_faults ''hello-huly'' 10 ''text/plain'' ''ws'' ''b.txt'' 8
     ex_a = (Inr (ex_metadata ''b.txt'' 8), ex_ab)"
  by (simp add: saveBlob_def io_defs getData_def createData_def createBlob_def blob_key_def
      Let_def ex_defs)

text \<open>The example of the specification: \<open>hello-huly\<close> as \<open>a.txt\<close>, then as \<open>b.txt\<close>.\<close>

theorem saveBlob_twice_one_Data_row_witness:
  "saveBlob (ex_plat 16) (Some ex_env) no_faults ''hello-huly'' 10 ''text/plain'' ''ws'' ''a.txt'' 7
     w_empty = (Inr (ex_metadata ''a.txt'' 7), ex_a)
   \<and> saveBlob (ex_plat 16) (Some ex_env) no_faults ''hello-huly'' 10 ''text/plain'' ''ws'' ''b.txt'' 8
       ex_a = (Inr (ex_metadata ''b.txt'' 8), ex_ab)
   \<and> blob_rows (blob_tbl ex_ab) ''ws'' ''a.txt'' = [ex_blob ''a.txt'']
   \<and> blob_rows (blob_tbl ex_ab) ''ws'' ''b.txt'' = [ex_blob ''b.txt'']
   \<and> length (data_rows (data_tbl ex_ab) ''hello-huly'' ''weur'') = 1
   \<and> data_tbl ex_ab = data_tbl ex_a"
proof -
  have n: "''a.txt'' \<noteq> ''b.txt''" by simp
  have d0: "length (data_rows (data_tbl w_empty) (getSha256 (ex_plat 16) ''hello-huly'')
              (selectLocation ex_env ''ws'')) \<le> 1"
    by (simp add: data_rows_def w_empty_def)
  have b: "length (blob_rows (blob_tbl w_empty) ''ws'' ''a.txt'') \<le> 1"
    "length (blob_rows (blob_tbl w_empty) ''ws'' ''b.txt'') \<le> 1"
    by (simp_all add: blob_rows_def w_empty_def)
  have v: "getSha256 (ex_plat 16) ''hello-huly'' = ''hello-huly''"
    "selectLocation ex_env ''ws'' = ''weur''"
    by (simp_all add: getSha256_def ex_plat_def ex_env_def)
  note r = saveBlob_twice_one_Data_row [OF saveBlob_a saveBlob_b_small n d0 b, unfolded v]
  from r saveBlob_a [of 16] saveBlob_b_small
  show ?thesis unfolding ex_blob_def by blast
qed

text \<open>
  Claim C6. An ingestion with declared size at most \<open>hashLimit\<close> computes the hash and
  looks the Data row of (hash, location) up before anything is written: when the lookup
  rejects, nothing but the random generator has moved. When a Data row exists, no run
  writes to the bucket or to the Data table, and the run whose operations do not reject
  upserts the Blob row and nothing else. When no Data row exists, the run whose operations
  do not reject stores the bytes under the freshly generated key and adds the Data row and
  the Blob row; and every run that does not end with the metadata leaves both tables as
  they were: the two rows are written together or not at all.
\<close>

theorem saveBlob_small_path:
  assumes small: "sz \<le> hashLimit plat"
  shows "let h = getSha256 plat stream;
             loc = selectLocation env ws;
             filename = randomUUID plat (drawn w);
             metadata = \<lparr>md_lastModified = lm, md_type = ty, md_size = sz, md_name = nm\<rparr>;
             row = \<lparr>d_hash = h, d_location = loc, d_filename = filename, d_type = ty, d_size = sz\<rparr>;
             object = \<lparr>o_size = length stream,
                       o_httpMetadata = Some \<lparr>hm_contentType = Some ty,
                                               hm_cacheControl = Some (cacheControl plat)\<rparr>,
                       o_uploaded = now w, o_httpEtag = r2_etag plat stream,
                       o_md5 = r2_md5 plat stream, o_range = None, o_body = stream\<rparr>;
             w0 = w\<lparr>drawn := Suc (drawn w)\<rparr>;
             res = saveBlob plat (Some env) flt stream sz ty ws nm lm w
         in (flt (DbGetData h loc) \<longrightarrow> res = (Inl DbError, w0))
          \<and> (getData (data_tbl w) h loc \<noteq> None \<longrightarrow>
                objects (snd res) = objects w \<and> data_tbl (snd res) = data_tbl w)
          \<and> (getData (data_tbl w) h loc \<noteq> None \<and> \<not> flt (DbGetData h loc)
                \<and> \<not> flt (DbCreateBlob ws nm) \<longrightarrow>
                res = (Inr metadata, w0\<lparr>blob_tbl := createBlob (blob_tbl w) ws nm h loc\<rparr>))
          \<and> (getData (data_tbl w) h loc = None \<and> \<not> flt (DbGetData h loc)
                \<and> \<not> flt (R2Put loc filename) \<and> \<not> flt (DbCreateData h loc)
                \<and> \<not> flt (DbCreateBlob ws nm) \<longrightarrow>
                res = (Inr metadata,
                       w0\<lparr>objects := AList.update (loc, filename) object (objects w),
                          data_tbl := data_tbl w @ [row],
                          blob_tbl := createBlob (blob_tbl w) ws nm h loc\<rparr>))
          \<and> (getData (data_tbl w) h loc = None \<and> fst res \<noteq> Inr metadata \<longrightarrow>
                data_tbl (snd res) = data_tbl w \<and> blob_tbl (snd res) = blob_tbl w)"
proof -
  let ?h = "getSha256 plat stream" and ?loc = "selectLocation env ws"
  let ?res = "saveBlob plat (Some env) flt stream sz ty ws nm lm w"
  let ?md = "\<lparr>md_lastModified = lm, md_type = ty, md_size = sz, md_name = nm\<rparr>"
  have a: "flt (DbGetData ?h ?loc) \<longrightarrow> ?res = (Inl DbError, w\<lparr>drawn := Suc (drawn w)\<rparr>)"
    using small by (simp add: saveBlob_def io_defs Let_def)
  have b: "getData (data_tbl w) ?h ?loc \<noteq> None \<longrightarrow>
             objects (snd ?res) = objects w \<and> data_tbl (snd ?res) = data_tbl w"
    using small by (auto simp: saveBlob_def io_defs Let_def split: option.splits)
  have c: "getData (data_tbl w) ?h ?loc \<noteq> None \<and> \<not> flt (DbGetData ?h ?loc)
             \<and> \<not> flt (DbCreateBlob ws nm) \<longrightarrow>
           ?res = (Inr ?md, w\<lparr>drawn := Suc (drawn w),
                              blob_tbl := createBlob (blob_tbl w) ws nm ?h ?loc\<rparr>)"
    using small by (auto simp: saveBlob_def io_defs Let_def split: option.splits)
  have d: "getData (data_tbl w) ?h ?loc = None \<and> \<not> flt (DbGetData ?h ?loc)
             \<and> \<not> flt (R2Put ?loc (randomUUID plat (drawn w))) \<and> \<not> flt (DbCreateData ?h ?loc)
             \<and> \<not> flt (DbCreateBlob ws nm) \<longrightarrow>
           ?res = (Inr ?md,
                   w\<lparr>drawn := Suc (drawn w),
                     objects := AList.update (?loc, randomUUID plat (drawn w))
                       \<lparr>o_size = length stream,
                        o_httpMetadata = Some \<lparr>hm_contentType = Some ty,
                                                hm_cacheControl = Some (cacheControl plat)\<rparr>,
                        o_uploaded = now w, o_httpEtag = r2_etag plat stream,
                        o_md5 = r2_md5 plat stream, o_range = None, o_body = stream\<rparr> (objects w),
                     data_tbl := data_tbl w @
                       [\<lparr>d_hash = ?h, d_location = ?loc, d_filename = randomUUID plat (drawn w),
                         d_type = ty, d_size = sz\<rparr>],
                     blob_tbl := createBlob (blob_tbl w) ws nm ?h ?loc\<rparr>)"
    using small by (auto simp: saveBlob_def io_defs createData_def Let_def)
  have e: "getData (data_tbl w) ?h ?loc = None \<and> fst ?res \<noteq> Inr ?md \<longrightarrow>
             data_tbl (snd ?res) = data_tbl w \<and> blob_tbl (snd ?res) = blob_tbl w"
    using small by (auto simp: saveBlob_def io_defs Let_def split: option.splits)
  from a b c d e show ?thesis
    unfolding Let_def by blast
qed

text \<open>The witness runs the upload branch (on the empty world), the branch that finds the
  Data row (on the world that has \<open>a.txt\<close>), a rejected lookup, and a rejected
  transaction after the upload.\<close>

theorem saveBlob_small_path_witness:
  "10 \<le> hashLimit (ex_plat 16)
   \<and> getData (data_tbl w_empty) ''hello-huly'' ''weur'' = None
   \<and> saveBlob (ex_plat 16) (Some ex_env) no_faults ''hello-huly'' 10 ''text/plain'' ''ws'' ''a.txt'' 7
       w_empty = (Inr (ex_metadata ''a.txt'' 7), ex_a)
   \<and> getData (data_tbl ex_a) ''hello-huly'' ''weur'' = Some ex_data
   \<and> saveBlob (ex_plat 16) (Some ex_env) no_faults ''hello-huly'' 10 ''text/plain'' ''ws'' ''b.txt'' 8
       ex_a = (Inr (ex_metadata ''b.txt'' 8), ex_ab)
   \<and> objects ex_ab = objects ex_a
   \<and> saveBlob (ex_plat 16) (Some ex_env) (only_fault (DbGetData ''hello-huly'' ''weur''))
       ''hello-huly'' 10 ''text/plain'' ''ws'' ''a.txt'' 7 w_empty = (Inl DbError, w_empty\<lparr>drawn := 1\<rparr>)
   \<and> fst (saveBlob (ex_plat 16) (Some ex_env) (only_fault (DbCreateBlob ''ws'' ''a.txt''))
       ''hello-huly'' 10 ''text/plain'' ''ws'' ''a.txt'' 7 w_empty) = Inl DbError
   \<and> data_tbl (snd (saveBlob (ex_plat 16) (Some ex_env) (only_fault (DbCreateBlob ''ws'' ''a.txt''))
       ''hello-huly'' 10 ''text/plain'' ''ws'' ''a.txt'' 7 w_empty)) = []
   \<and> blob_tbl (snd (saveBlob (ex_plat 16) (Some ex_env) (only_fault (DbCreateBlob ''ws'' ''a.txt''))
       ''hello-huly'' 10 ''text/plain'' ''ws'' ''a.txt'' 7 w_empty)) = []"
proof -
  have small: "10 \<le> hashLimit (ex_plat 16)" by (simp add: ex_plat_def)
  note t = saveBlob_small_path [OF small, where stream = "''hello-huly''" and env = ex_env
      and ws = "''ws''" and ty = "''text/plain''"]
  have v: "getSha256 (ex_plat 16) ''hello-huly'' = ''hello-huly''"
    "selectLocation ex_env ''ws'' = ''weur''"
    by (simp_all add: getSha256_def ex_plat_def ex_env_def)
  have g0: "getData (data_tbl w_empty) ''hello-huly'' ''weur'' = None"
    by (simp add: getData_def w_empty_def)
  have g1: "getData (data_tbl ex_a) ''hello-huly'' ''weur'' = Some ex_data"
    by (simp add: getData_def ex_a_def ex_data_def)
  have up: "saveBlob (ex_plat 16) (Some ex_env) no_faults ''hello-huly'' 10 ''text/plain'' ''ws''
              ''a.txt'' 7 w_empty = (Inr (ex_metadata ''a.txt'' 7), ex_a)"
    using t [where w = w_empty and flt = no_faults and nm = "''a.txt''" and lm = 7] g0
    by (simp add: Let_def v no_faults_def createBlob_def)
       (simp add: ex_defs)
  have dd: "saveBlob (ex_plat 16) (Some ex_env) no_faults ''hello-huly'' 10 ''text/plain'' ''ws''
              ''b.txt'' 8 ex_a = (Inr (ex_metadata ''b.txt'' 8), ex_ab)"
    using t [where w = ex_a and flt = no_faults and nm = "''b.txt''" and lm = 8] g1
    by (simp add: Let_def v no_faults_def)
       (simp add: ex_defs createBlob_def blob_key_def)
  have ob: "objects ex_ab = objects ex_a"
    by (simp add: ex_a_def ex_ab_def)
  have lk: "saveBlob (ex_plat 16) (Some ex_env) (only_fault (DbGetData ''hello-huly'' ''weur''))
       ''hello-huly'' 10 ''text/plain'' ''ws'' ''a.txt'' 7 w_empty = (Inl DbError, w_empty\<lparr>drawn := 1\<rparr>)"
    using t [where w = w_empty and flt = "only_fault (DbGetData ''hello-huly'' ''weur'')"
        and nm = "''a.txt''" and lm = 7]
    by (simp add: Let_def v only_fault_def) (simp add: w_empty_def)
  let ?r = "saveBlob (ex_plat 16) (Some ex_env) (only_fault (DbCreateBlob ''ws'' ''a.txt''))
       ''hello-huly'' 10 ''text/plain'' ''ws'' ''a.txt'' 7 w_empty"
  have f: "fst ?r = Inl DbError"
    by (simp add: saveBlob_def io_defs getData_def Let_def ex_defs)
  have tx: "data_tbl (snd ?r) = [] \<and> blob_tbl (snd ?r) = []"
    using t [where w = w_empty and flt = "only_fault (DbCreateBlob ''ws'' ''a.txt'')"
        and nm = "''a.txt''" and lm = 7] g0 f
    by (simp add: Let_def v) (simp add: w_empty_def)
  from small g0 up g1 dd ob lk f tx show ?thesis by simp
qed

subsection \<open>Reconciliation and the large path\<close>

lemmas ex_defs3 = ex_form_def ex_file_def ex_a_oob_def ex_oob_def

lemma handleBlobUploaded_cases:
  assumes "map_of (objects w) (selectLocation env ws, filename) = Some object"
    and "o_httpMetadata object = Some hm"
    and "\<not> flt (R2Head (selectLocation env ws) filename)" and "\<not> flt PgConnect"
  shows "handleBlobUploaded plat (Some env) flt ws nm filename w =
     (let loc = selectLocation env ws;
          h = (case o_md5 object of Some md5 \<Rightarrow> toUUID plat md5 | None \<Rightarrow> randomUUID plat (drawn w));
          w2 = (case o_md5 object of Some md5 \<Rightarrow> w | None \<Rightarrow> w\<lparr>drawn := Suc (drawn w)\<rparr>)
      in if flt (DbGetData h loc) then (Inl DbError, w2)
         else (case getData (data_tbl w) h loc of
                 Some d \<Rightarrow>
                   (if flt (R2Delete loc filename) then Inl BucketError
                    else if flt (DbCreateBlob ws nm) then Inl DbError else Inr (),
                    w2\<lparr>objects := (if flt (R2Delete loc filename) then objects w
                                    else AList.delete (loc, filename) (objects w)),
                       blob_tbl := (if flt (DbCreateBlob ws nm) then blob_tbl w
                                    else createBlob (blob_tbl w) ws nm h loc)\<rparr>)
               | None \<Rightarrow>
                   if flt (DbCreateData h loc) \<or> flt (DbCreateBlob ws nm) then (Inl DbError, w2)
                   else (Inr (),
                         w2\<lparr>data_tbl := data_tbl w @
                               [\<lparr>d_hash = h, d_location = loc, d_filename = filename,
                                 d_type = (case hm_contentType hm of
                                             Some t \<Rightarrow> t | None \<Rightarrow> ''application/octet-stream''),
                                 d_size = o_size object\<rparr>],
                            blob_tbl := createBlob (blob_tbl w) ws nm h loc\<rparr>)))"
  using assms
  by (cases "o_md5 object")
     (auto simp: handleBlobUploaded_def io_defs createData_def Let_def split: option.splits)






text \<open>
  Claim C1, as stated, fails. The bucket holds the object \<open>up1\<close> with HTTP metadata and
  without a checksum. Its reconciliation does not fail: it draws the random UUID \<open>k\<close>,
  takes it as the hash, and records a Data row and a Blob row keyed by it.
\<close>

theorem reconcile_without_checksum_succeeds:
  "map_option o_md5 (map_of (objects ex_oob) (''weur'', ''up1'')) = Some None
   \<and> randomUUID (ex_plat 4) (drawn ex_oob) = ''k''
   \<and> handleBlobUploaded (ex_plat 4) (Some ex_env) no_faults ''ws'' ''a.txt'' ''up1'' ex_oob =
       (Inr (),
        ex_oob\<lparr>drawn := 1,
               data_tbl := [\<lparr>d_hash = ''k'', d_location = ''weur'', d_filename = ''up1'',
                              d_type = ''text/plain'', d_size = 10\<rparr>],
               blob_tbl := [\<lparr>b_workspace = ''ws'', b_name = ''a.txt'', b_hash = ''k'',
                              b_location = ''weur'', b_deleted = False\<rparr>]\<rparr>)"
  by (simp add: handleBlobUploaded_def io_defs getData_def createData_def createBlob_def
      blob_key_def Let_def ex_defs ex_defs3)

text \<open>
  Claim C1, amended. A reconciliation fails with \<open>blob not found\<close>, and changes nothing,
  when the head of the bucket reports no object or an object without HTTP metadata. When
  the head reports HTTP metadata and no checksum, the reconciliation goes on with a
  freshly drawn random UUID as the hash: if no Data row has that identifier and no
  operation of the store rejects, it succeeds and records a Data row keyed by the random
  identifier, with the Blob row pointing at it.
\<close>

theorem handleBlobUploaded_without_checksum:
  "(\<not> flt (R2Head (selectLocation env ws) key)
      \<and> (map_of (objects w) (selectLocation env ws, key) = None
         \<or> map_option o_httpMetadata (map_of (objects w) (selectLocation env ws, key)) = Some None)
      \<longrightarrow> handleBlobUploaded plat (Some env) flt ws nm key w = (Inl BlobNotFound, w))
   \<and> (map_of (objects w) (selectLocation env ws, key) = Some object
      \<and> o_httpMetadata object = Some hm \<and> o_md5 object = None
      \<and> getData (data_tbl w) (randomUUID plat (drawn w)) (selectLocation env ws) = None
      \<and> \<not> flt (R2Head (selectLocation env ws) key) \<and> \<not> flt PgConnect
      \<and> \<not> flt (DbGetData (randomUUID plat (drawn w)) (selectLocation env ws))
      \<and> \<not> flt (DbCreateData (randomUUID plat (drawn w)) (selectLocation env ws))
      \<and> \<not> flt (DbCreateBlob ws nm)
      \<longrightarrow> handleBlobUploaded plat (Some env) flt ws nm key w =
            (Inr (),
             w\<lparr>drawn := Suc (drawn w),
               data_tbl := data_tbl w @
                 [\<lparr>d_hash = randomUUID plat (drawn w), d_location = selectLocation env ws,
                   d_filename = key,
                   d_type = (case hm_contentType hm of
                               Some t \<Rightarrow> t | None \<Rightarrow> ''application/octet-stream''),
                   d_size = o_size object\<rparr>],
               blob_tbl := createBlob (blob_tbl w) ws nm (randomUUID plat (drawn w))
                             (selectLocation env ws)\<rparr>))"
proof (intro conjI impI)
  assume "\<not> flt (R2Head (selectLocation env ws) key)
      \<and> (map_of (objects w) (selectLocation env ws, key) = None
         \<or> map_option o_httpMetadata (map_of (objects w) (selectLocation env ws, key)) = Some None)"
  then show "handleBlobUploaded plat (Some env) flt ws nm key w = (Inl BlobNotFound, w)"
    by (auto simp: handleBlobUploaded_def selectStorage_def bucket_head_def)
next
  assume a: "map_of (objects w) (selectLocation env ws, key) = Some object
      \<and> o_httpMetadata object = Some hm \<and> o_md5 object = None
      \<and> getData (data_tbl w) (randomUUID plat (drawn w)) (selectLocation env ws) = None
      \<and> \<not> flt (R2Head (selectLocation env ws) key) \<and> \<not> flt PgConnect
      \<and> \<not> flt (DbGetData (randomUUID plat (drawn w)) (selectLocation env ws))
      \<and> \<not> flt (DbCreateData (randomUUID plat (drawn w)) (selectLocation env ws))
      \<and> \<not> flt (DbCreateBlob ws nm)"
  then have o: "map_of (objects w) (selectLocation env ws, key) = Some object"
    and h: "o_httpMetadata object = Some hm"
    and nf: "\<not> flt (R2Head (selectLocation env ws) key)" "\<not> flt PgConnect"
    by simp_all
  from a show "handleBlobUploaded plat (Some env) flt ws nm key w =
            (Inr (),
             w\<lparr>drawn := Suc (drawn w),
               data_tbl := data_tbl w @
                 [\<lparr>d_hash = randomUUID plat (drawn w), d_location = selectLocation env ws,
                   d_filename = key,
                   d_type = (case hm_contentType hm of
                               Some t \<Rightarrow> t | None \<Rightarrow> ''application/octet-stream''),
                   d_size = o_size object\<rparr>],
               blob_tbl := createBlob (blob_tbl w) ws nm (randomUUID plat (drawn w))
                             (selectLocation env ws)\<rparr>)"
    by (simp add: handleBlobUploaded_cases [OF o h nf] Let_def)
qed

theorem handleBlobUploaded_without_checksum_witness:
  "map_of (objects w_empty) (''weur'', ''up1'') = None
   \<and> handleBlobUploaded (ex_plat 4) (Some ex_env) no_faults ''ws'' ''a.txt'' ''up1'' w_empty =
       (Inl BlobNotFound, w_empty)
   \<and> map_of (objects ex_oob) (''weur'', ''up1'') = Some (ex_object\<lparr>o_md5 := None\<rparr>)
   \<and> data_tbl (snd (handleBlobUploaded (ex_plat 4) (Some ex_env) no_faults ''ws'' ''a.txt''
        ''up1'' ex_oob)) =
       [\<lparr>d_hash = ''k'', d_location = ''weur'', d_filename = ''up1'', d_type = ''text/plain'',
         d_size = 10\<rparr>]
   \<and> fst (handleBlobUploaded (ex_plat 4) (Some ex_env) no_faults ''ws'' ''a.txt'' ''up1'' ex_oob) =
       Inr ()"
proof -
  have v: "selectLocation ex_env ''ws'' = ''weur''" "randomUUID (ex_plat 4) (drawn ex_oob) = ''k''"
    by (simp_all add: ex_env_def ex_plat_def ex_oob_def w_empty_def)
  have n: "map_of (objects w_empty) (''weur'', ''up1'') = None"
    by (simp add: w_empty_def)
  have o: "map_of (objects ex_oob) (''weur'', ''up1'') = Some (ex_object\<lparr>o_md5 := None\<rparr>)"
    by (simp add: ex_oob_def)
  have g: "getData (data_tbl ex_oob) ''k'' ''weur'' = None"
    by (simp add: getData_def ex_oob_def w_empty_def)
  have a: "handleBlobUploaded (ex_plat 4) (Some ex_env) no_faults ''ws'' ''a.txt'' ''up1'' w_empty =
       (Inl BlobNotFound, w_empty)"
    using handleBlobUploaded_without_checksum [where env = ex_env and ws = "''ws''"
        and key = "''up1''" and w = w_empty and flt = no_faults and plat = "ex_plat 4"
        and nm = "''a.txt''"] n
    by (simp add: v no_faults_def)
  have b: "handleBlobUploaded (ex_plat 4) (Some ex_env) no_faults ''ws'' ''a.txt'' ''up1'' ex_oob =
       (Inr (),
        ex_oob\<lparr>drawn := Suc (drawn ex_oob),
               data_tbl := data_tbl ex_oob @
                 [\<lparr>d_hash = ''k'', d_location = ''weur'', d_filename = ''up1'',
                   d_type = ''text/plain'', d_size = 10\<rparr>],
               blob_tbl := createBlob (blob_tbl ex_oob) ''ws'' ''a.txt'' ''k'' ''weur''\<rparr>)"
    using handleBlobUploaded_without_checksum [where env = ex_env and ws = "''ws''"
        and key = "''up1''" and w = ex_oob and flt = no_faults and plat = "ex_plat 4"
        and nm = "''a.txt''" and object = "ex_object\<lparr>o_md5 := None\<rparr>"
        and hm = "\<lparr>hm_contentType = Some ''text/plain'', hm_cacheControl = Some ''immutable''\<rparr>"]
      o g
    by (simp add: v no_faults_def ex_object_def)
  have d: "data_tbl ex_oob = []" by (simp add: ex_oob_def w_empty_def)
  from n a o b d show ?thesis by simp
qed

subsection \<open>Form-data upload\<close>





lemma saveBlob_blob_tbl:
  "blob_tbl (snd (saveBlob plat env flt stream sz ty ws nm lm w)) = blob_tbl w
   \<or> (\<exists>h loc. blob_tbl (snd (saveBlob plat env flt stream sz ty ws nm lm w)) =
                createBlob (blob_tbl w) ws nm h loc)"
  by (cases env)
     (auto simp: saveBlob_def io_defs Let_def split: option.splits)








lemmas ex_defs4 = ex_batch_def ex_video_def ex_video_stored_def


subsection \<open>Videos\<close>

text \<open>
  Claim C7, as stated, fails. A form with the video \<open>clip.mp4\<close> is uploaded while the
  copy to the media collaborator rejects: the video is stored (its Blob row is there), yet
  the outcome reported for the file is the error of the copy, not its metadata.
\<close>

theorem failed_video_copy_fails_file:
  "startsWith ''video/mp4'' ''video/''
   \<and> handleUploadFormData (ex_plat 16) (Some ex_env) (only_fault (CopyVideo ''ws'' ''clip.mp4''))
       ex_video w_empty =
       (Inr (json [(''file'', Error VideoError)]), ex_video_stored)
   \<and> blob_rows (blob_tbl ex_video_stored) ''ws'' ''clip.mp4'' = [ex_blob ''clip.mp4'']"
proof -
  have s: "startsWith ''video/mp4'' ''video/''"
    by (simp add: startsWith_def)
  have h: "handleUploadFormData (ex_plat 16) (Some ex_env) (only_fault (CopyVideo ''ws'' ''clip.mp4''))
       ex_video w_empty = (Inr (json [(''file'', Error VideoError)]), ex_video_stored)"
    by (simp add: handleUploadFormData_def uploadFile_def startsWith_def saveBlob_def io_defs
        getData_def createData_def createBlob_def blob_key_def Let_def ex_defs ex_defs3 ex_defs4)
  have b: "blob_rows (blob_tbl ex_video_stored) ''ws'' ''clip.mp4'' = [ex_blob ''clip.mp4'']"
    by (simp add: blob_rows_def blob_key_def ex_video_stored_def ex_blob_def)
  from s h b show ?thesis by simp
qed

text \<open>
  Claim C7, amended. For a file whose content type starts with \<open>video/\<close>, once the blob
  is stored the upload calls the copy to the media collaborator and waits for it. When the
  copy succeeds, the video is handed to the collaborator and the file's outcome is its
  stored metadata. When the copy rejects, the file's outcome is the error of the copy,
  while the stored blob stays as it is.
\<close>

theorem video_copy_awaited:
  assumes v: "startsWith (f_type file) ''video/''"
    and s: "withPostgres (Some env) flt
              (saveBlob plat (Some env) flt (f_bytes file) (length (f_bytes file)) (f_type file)
                 (wr_workspace request) (f_name file) (f_lastModified file)) w = (Inr metadata, w1)"
  shows "(\<not> flt (CopyVideo (wr_workspace request) (f_name file)) \<longrightarrow>
            uploadFile plat (Some env) flt request (file, k) w =
              ((k, Metadata metadata),
               w1\<lparr>media := List.insert (wr_workspace request, f_name file) (media w1)\<rparr>))
       \<and> (flt (CopyVideo (wr_workspace request) (f_name file)) \<longrightarrow>
            uploadFile plat (Some env) flt request (file, k) w = ((k, Error VideoError), w1))"
  using v s by (simp add: uploadFile_def copyVideo_def)

theorem video_copy_awaited_witness:
  "startsWith (f_type (ex_file ''clip.mp4'' ''video/mp4'' 7)) ''video/''
   \<and> uploadFile (ex_plat 16) (Some ex_env) no_faults ex_video
       (ex_file ''clip.mp4'' ''video/mp4'' 7, ''file'') w_empty =
       ((''file'', Metadata ((ex_metadata ''clip.mp4'' 7)\<lparr>md_type := ''video/mp4''\<rparr>)),
        ex_video_stored\<lparr>media := [(''ws'', ''clip.mp4'')]\<rparr>)
   \<and> uploadFile (ex_plat 16) (Some ex_env) (only_fault (CopyVideo ''ws'' ''clip.mp4'')) ex_video
       (ex_file ''clip.mp4'' ''video/mp4'' 7, ''file'') w_empty =
       ((''file'', Error VideoError), ex_video_stored)"
proof -
  let ?f = "ex_file ''clip.mp4'' ''video/mp4'' 7"
  let ?md = "(ex_metadata ''clip.mp4'' 7)\<lparr>md_type := ''video/mp4''\<rparr>"
  have v: "startsWith (f_type ?f) ''video/''"
    by (simp add: startsWith_def ex_file_def)
  have s: "withPostgres (Some ex_env) flt
              (saveBlob (ex_plat 16) (Some ex_env) flt (f_bytes ?f) (length (f_bytes ?f)) (f_type ?f)
                 (wr_workspace ex_video) (f_name ?f) (f_lastModified ?f)) w_empty = (Inr ?md, ex_video_stored)"
    if "flt = no_faults \<or> flt = only_fault (CopyVideo ''ws'' ''clip.mp4'')" for flt
    using that
    by (auto simp: saveBlob_def io_defs getData_def createData_def createBlob_def blob_key_def
        Let_def ex_defs ex_defs3 ex_defs4)
  have a: "uploadFile (ex_plat 16) (Some ex_env) no_faults ex_video (?f, ''file'') w_empty =
       ((''file'', Metadata ?md), ex_video_stored\<lparr>media := [(''ws'', ''clip.mp4'')]\<rparr>)"
    using video_copy_awaited [OF v s, of no_faults "''file''"]
    by (simp add: no_faults_def ex_video_def ex_form_def ex_file_def ex_video_stored_def)
  have b: "uploadFile (ex_plat 16) (Some ex_env) (only_fault (CopyVideo ''ws'' ''clip.mp4'')) ex_video
       (?f, ''file'') w_empty = ((''file'', Error VideoError), ex_video_stored)"
    using video_copy_awaited [OF v s, of "only_fault (CopyVideo ''ws'' ''clip.mp4'')" "''file''"]
    by (simp add: only_fault_def ex_video_def ex_form_def ex_file_def)
  from v a b show ?thesis by simp
qed

subsection \<open>Range requests\<close>

lemmas ex_defs5 = ex_big_def ex_range_request_def ex_range_response_def ex_others_def ex_post_def
  ex_get_def

lemma show_nat_1000: "show_nat 1000 = ''1000''"
  by (simp add: show_nat.simps digit_char_def)

lemma rangeHeader_0_99: 
  "rangeHeader \<lparr>r_offset = Some 0, r_length = Some 100, r_suffix = None\<rparr> 1000 = ''bytes 0-99/1000''"
  by (simp add: rangeHeader_def show_int_def show_nat.simps digit_char_def)

text \<open>In every response that \<open>handleBlobGet\<close> builds from an object of the bucket, the
  Content-Length header is the size of the whole object, and the status is 206 exactly
  when the object reports a range with a length below that size.\<close>

lemma blobGetResponse_Content_Length:
  "map_of (headers (blobGetResponse plat rng object)) ''Content-Length'' =
     Some (show_nat (o_size object))"
  by (simp add: blobGetResponse_def r2MetadataHeaders_def Let_def update_conv'
      split: option.splits)

lemma blobGetResponse_status:
  "status (blobGetResponse plat rng object) =
     (case o_range object of
        None \<Rightarrow> 200
      | Some r \<Rightarrow> (case r_length r of
                     None \<Rightarrow> 200
                   | Some l \<Rightarrow> if l < o_size object then 206 else 200))"
  by (simp add: blobGetResponse_def Let_def split: option.splits)

lemma full_response_200:
  "fst (handleBlobGet (ex_plat 16) (Some ex_env) no_faults
          (ex_range_request\<lparr>rq_range := None\<rparr>) ex_big) =
     Inr \<lparr>status = 200,
          headers = [(''Accept-Ranges'', ''bytes''), (''Content-Length'', ''1000''),
                     (''Content-Type'', ''application/octet-stream''),
                     (''Content-Security-Policy'', ''default-src 'none';''),
                     (''Cache-Control'', ''immutable''),
                     (''Last-Modified'', ''Thu, 01 Jan 1970 00:00:00 GMT''),
                     (''ETag'', ''etag'')],
          body = Bytes (replicate 1000 CHR ''x'')\<rparr>"
  by (simp add: handleBlobGet_def cache_match_def cache_put_def io_defs getBlob_row_def
      getData_def blob_key_def bucket_get_def blobGetResponse_def r2MetadataHeaders_def
      show_nat_1000 Let_def ex_defs ex_defs5)

text \<open>
  Claim C3 at its own example: the GET of \<open>bytes=0-99\<close> of a 1000-byte object. The code
  answers 206 with the hundred bytes and the Content-Range \<open>bytes 0-99/1000\<close>, but its
  Content-Length header is \<open>1000\<close>, the size of the whole object, where the claim has the
  number of bytes served, 100.
\<close>

theorem range_response_Content_Length_full_size:
  "handleBlobGet (ex_plat 16) (Some ex_env) no_faults ex_range_request ex_big =
     (Inr ex_range_response, ex_big)
   \<and> status ex_range_response = 206
   \<and> body ex_range_response = Bytes (replicate 100 CHR ''x'')
   \<and> length (replicate 100 CHR ''x'') = 100
   \<and> map_of (headers ex_range_response) ''Content-Range'' = Some ''bytes 0-99/1000''
   \<and> map_of (headers ex_range_response) ''Content-Length'' = Some ''1000''"
proof -
  have g: "handleBlobGet (ex_plat 16) (Some ex_env) no_faults ex_range_request ex_big =
             (Inr ex_range_response, ex_big)"
    by (simp add: handleBlobGet_def cache_match_def io_defs getBlob_row_def getData_def
        blob_key_def bucket_get_def resolve_range_def blobGetResponse_def r2MetadataHeaders_def
        show_nat_1000 rangeHeader_0_99 Let_def ex_defs ex_defs5)
  have r: "status ex_range_response = 206
     \<and> body ex_range_response = Bytes (replicate 100 CHR ''x'')
     \<and> map_of (headers ex_range_response) ''Content-Range'' = Some ''bytes 0-99/1000''
     \<and> map_of (headers ex_range_response) ''Content-Length'' = Some ''1000''"
    by (simp add: ex_range_response_def)
  from g r show ?thesis by simp
qed

subsection \<open>The internal surface\<close>

lemma split_on_sep:
  "c \<notin> set xs \<Longrightarrow> split_on c (xs @ c # ys) = xs # split_on c ys"
  by (induction xs) auto

lemma strip_Cons:
  assumes "a \<noteq> []"
  shows "rev (dropWhile (\<lambda>s. s = []) (rev (a # xs))) = a # rev (dropWhile (\<lambda>s. s = []) (rev xs))"
  using assms by (simp add: dropWhile_append)

lemma path_segments_upload:
  "\<exists>rest. path_segments (''/upload/form-data/'' @ workspace) = ''upload'' # ''form-data'' # rest"
proof -
  have "split_on CHR ''/'' (''/upload/form-data/'' @ workspace) =
          [] # ''upload'' # ''form-data'' # split_on CHR ''/'' workspace"
    using split_on_sep [of "CHR ''/''" "[]" "''upload/form-data/'' @ workspace"]
      split_on_sep [of "CHR ''/''" "''upload''" "''form-data/'' @ workspace"]
      split_on_sep [of "CHR ''/''" "''form-data''" workspace]
    by simp
  then have "path_segments (''/upload/form-data/'' @ workspace) =
          ''upload'' # ''form-data'' # rev (dropWhile (\<lambda>s. s = []) (rev (split_on CHR ''/'' workspace)))"
    unfolding path_segments_def by (simp add: strip_Cons del: rev.simps)
  then show ?thesis by blast
qed

lemma find_route_GET_upload:
  "find_route routes GET (''upload'' # ''form-data'' # rest) = NotFound"
  by (simp add: routes_def)

text \<open>A GET under \<open>/upload/form-data/\<close> matches no route: \<open>putBlob\<close>, whose request is such
  a GET, gets the 404 of the catch-all route, throws, and leaves the world as it was,
  whatever the workspace, the name and the bytes.\<close>

lemma putBlob_never_stores:
  "putBlob plat others flt workspace nm content ty w = (Inl (FailedToFetch 404), w)"
proof -
  obtain rest where "path_segments (''/upload/form-data/'' @ workspace) = ''upload'' # ''form-data'' # rest"
    using path_segments_upload by blast
  then show ?thesis
    by (simp add: putBlob_def router_fetch_def find_route_GET_upload Let_def error_response_def
        ok_def)
qed

text \<open>\<open>getBlob\<close> passes no \<open>env\<close> to the router: it returns a response that the edge cache
  holds, and throws where the handler has to select the storage.\<close>

lemma getBlob_without_env:
  "getBlob (ex_plat 16) ex_others no_faults ''ws'' ''a.txt'' ex_a = (Inl TypeError, ex_a)
   \<and> getBlob (ex_plat 16) ex_others no_faults ''ws'' ''a.txt'' ex_a_cached =
       (Inr (Bytes ''hello-huly''), ex_a_cached)
   \<and> worker_fetch (ex_plat 16) ex_others ex_env no_faults ex_get ex_a = (ex_a_response, ex_a_cached)"
  by (simp add: getBlob_def worker_fetch_def router_fetch_def path_segments_def routes_def
      withBlob_def handleBlobGet_def cache_match_def cache_put_def io_defs getBlob_row_def
      getData_def blob_key_def bucket_get_def blobGetResponse_def r2MetadataHeaders_def
      show_nat_10 ok_def Let_def ex_defs ex_defs2 ex_defs5)

text \<open>
  Claim C9 at a concrete input. The POST of a form with the file \<open>a.txt\<close> (the ten bytes
  \<open>hello-huly\<close>) to \<open>/upload/form-data/ws\<close> stores the blob: it answers with the metadata
  of the file and leaves the world that has \<open>a.txt\<close>. \<open>putBlob\<close> of the same bytes under the
  same name stores nothing: its request is a GET without body (method and body were
  handed to \<open>router.fetch\<close>, not to the request), no route matches, and it throws on the
  404, leaving the world empty.
\<close>

theorem putBlob_is_not_the_POST:
  "worker_fetch (ex_plat 16) ex_others ex_env no_faults ex_post w_empty =
     (json [(''file'', Metadata (ex_metadata ''a.txt'' 0))], ex_a)
   \<and> putBlob (ex_plat 16) ex_others no_faults ''ws'' ''a.txt'' ''hello-huly'' ''text/plain'' w_empty =
       (Inl (FailedToFetch 404), w_empty)
   \<and> blob_tbl ex_a = [ex_blob ''a.txt''] \<and> blob_tbl w_empty = []"
proof -
  have p: "worker_fetch (ex_plat 16) ex_others ex_env no_faults ex_post w_empty =
     (json [(''file'', Metadata (ex_metadata ''a.txt'' 0))], ex_a)"
    by (simp add: worker_fetch_def router_fetch_def path_segments_def routes_def
        withWorkspace_def handleUploadFormData_def uploadFile_def startsWith_def saveBlob_def
        io_defs getData_def createData_def createBlob_def blob_key_def Let_def ex_defs ex_defs3
        ex_defs5 eval_nat_numeral)
  have q: "putBlob (ex_plat 16) ex_others no_faults ''ws'' ''a.txt'' ''hello-huly'' ''text/plain''
             w_empty = (Inl (FailedToFetch 404), w_empty)"
    by (simp add: putBlob_def router_fetch_def path_segments_def routes_def Let_def
        error_response_def ok_def ex_defs)
  have t: "blob_tbl ex_a = [ex_blob ''a.txt''] \<and> blob_tbl w_empty = []"
    by (simp add: ex_a_def w_empty_def)
  from p q t show ?thesis by simp
qed

subsection \<open>At most one row per key\<close>

text \<open>An ingestion, whether it succeeds or not, keeps a store that has at most one Data
  row per (hash, location) and at most one Blob row per (workspace, name) that way.\<close>

lemma data_rows_createData_le:
  assumes "length (data_rows tbl h loc) \<le> 1"
  shows "length (data_rows (createData tbl row) h loc) \<le> 1"
proof (cases "h = d_hash row \<and> loc = d_location row")
  case True
  with assms show ?thesis
    by (simp add: data_rows_createData)
next
  case False
  then have "data_rows (createData tbl row) h loc = data_rows tbl h loc"
    by (auto simp: createData_def data_rows_def split: option.splits)
  with assms show ?thesis by simp
qed

lemma blob_rows_createBlob_le:
  assumes "length (blob_rows tbl ws' nm') \<le> 1"
  shows "length (blob_rows (createBlob tbl ws nm h loc) ws' nm') \<le> 1"
proof (cases "(ws', nm') = (ws, nm)")
  case True
  with assms show ?thesis
    by (simp add: blob_rows_singleton)
next
  case False
  with assms show ?thesis
    by (simp add: blob_rows_createBlob_other)
qed

lemma saveBlob_data_tbl:
  "data_tbl (snd (saveBlob plat env flt stream sz ty ws nm lm w)) = data_tbl w
   \<or> (\<exists>row. data_tbl (snd (saveBlob plat env flt stream sz ty ws nm lm w)) =
              createData (data_tbl w) row)"
  by (cases env)
     (auto simp: saveBlob_def io_defs Let_def split: option.splits)

lemma saveBlob_keeps_unique_data:
  assumes "length (data_rows (data_tbl w) h loc) \<le> 1"
  shows "length (data_rows (data_tbl (snd (saveBlob plat env flt stream sz ty ws nm lm w))) h loc) \<le> 1"
  using saveBlob_data_tbl [of plat env flt stream sz ty ws nm lm w]
    data_rows_createData_le [OF assms] assms
  by metis

lemma saveBlob_keeps_unique_blob:
  assumes "length (blob_rows (blob_tbl w) ws' nm') \<le> 1"
  shows "length (blob_rows (blob_tbl (snd (saveBlob plat env flt stream sz ty ws nm lm w))) ws' nm') \<le> 1"
  using saveBlob_blob_tbl [of plat env flt stream sz ty ws nm lm w]
    blob_rows_createBlob_le [OF assms] assms
  by metis

end
